theory Spec2Isabelle
  imports Complex_Main
begin

section \<open>Numbers: Python floats and decimal.Decimal\<close>

text \<open>
  The strategy mixes two number types. A Python \<^verbatim>\<open>float\<close> is an IEEE-754 double and a
  \<^verbatim>\<open>decimal.Decimal\<close> is a decimal coefficient with an exponent, computed in the default
  context \<^verbatim>\<open>Context(prec=28, rounding=ROUND_HALF_EVEN, Emin=-999999, Emax=999999)\<close>.
  Both are modelled by the rational number they denote, and every operation of the source
  is the exact operation followed by the rounding of its type: to 53 significant bits for a
  float, to 28 significant decimal digits for a Decimal, ties to even in both cases.
  \<^verbatim>\<open>Decimal(x)\<close> of a float \<^verbatim>\<open>x\<close> is exact, so it is the identity on the value.

  Outside the model: NaN and the infinities of either type, the overflow of a float to
  infinity and the \<^verbatim>\<open>decimal.Overflow\<close> trap above \<open>10 ^ 999999\<close>. No operation of the
  strategy produces one of them from finite inputs of ordinary size.
\<close>

type_synonym pyfloat = rat
type_synonym Decimal = rat

definition round_half_even :: "rat \<Rightarrow> int" where
  "round_half_even x =
     (let f = \<lfloor>x\<rfloor>; r = x - of_int f
      in if r < 1 / 2 then f
         else if 1 / 2 < r then f + 1
         else if even f then f else f + 1)"

text \<open>The number of digits of a positive integer \<open>n\<close> in base \<open>b\<close>.\<close>

function digits :: "int \<Rightarrow> int \<Rightarrow> int" where
  "digits b n = (if n < b \<or> b < 2 then 1 else 1 + digits b (n div b))"
  by pat_completeness auto
termination
  by (relation "measure (\<lambda>(b, n). nat n)") (auto intro: int_div_less_self)

declare digits.simps [simp del]

text \<open>
  \<open>floor_log b x\<close> is the exponent \<open>e\<close> with \<open>b ^ e \<le> x < b ^ (e + 1)\<close> of a positive
  rational: the difference of the digit counts of numerator and denominator, or one less.
\<close>

definition floor_log :: "int \<Rightarrow> rat \<Rightarrow> int" where
  "floor_log b x =
     (let (n, d) = quotient_of x;
          k = digits b n - digits b d
      in if power_int (of_int b) k \<le> x then k else k - 1)"

text \<open>
  Rounding to \<open>p\<close> significant digits in base \<open>b\<close>, ties to even, on a grid that is never
  finer than \<open>b ^ emin\<close> (the subnormal range of the format).
\<close>

definition round_to :: "int \<Rightarrow> int \<Rightarrow> int \<Rightarrow> rat \<Rightarrow> rat" where
  "round_to b p emin x =
     (if x = 0 then 0
      else let q = max (floor_log b \<bar>x\<bar> - p + 1) emin
           in of_int (round_half_even (x / power_int (of_int b) q)) * power_int (of_int b) q)"

text \<open>
  \<open>float_of\<close> is the double nearest to a number: a float literal of the source, the result
  of a float operation, \<^verbatim>\<open>float(d)\<close> of a Decimal. \<open>context_round\<close> is the rounding of the
  default decimal context, applied by every Decimal operation.
\<close>

definition float_of :: "rat \<Rightarrow> pyfloat" where
  "float_of = round_to 2 53 (- 1074)"

definition context_round :: "rat \<Rightarrow> Decimal" where
  "context_round = round_to 10 28 (- 1000026)"

definition float_add :: "pyfloat \<Rightarrow> pyfloat \<Rightarrow> pyfloat" where
  "float_add a b = float_of (a + b)"

definition float_truediv :: "pyfloat \<Rightarrow> pyfloat \<Rightarrow> pyfloat" where
  "float_truediv a b = float_of (a / b)"

definition Decimal_of_float :: "pyfloat \<Rightarrow> Decimal" where
  "Decimal_of_float x = x"

definition Decimal_add :: "Decimal \<Rightarrow> Decimal \<Rightarrow> Decimal" where
  "Decimal_add a b = context_round (a + b)"

definition Decimal_sub :: "Decimal \<Rightarrow> Decimal \<Rightarrow> Decimal" where
  "Decimal_sub a b = context_round (a - b)"

definition Decimal_mul :: "Decimal \<Rightarrow> Decimal \<Rightarrow> Decimal" where
  "Decimal_mul a b = context_round (a * b)"

definition Decimal_truediv :: "Decimal \<Rightarrow> Decimal \<Rightarrow> Decimal" where
  "Decimal_truediv a b = context_round (a / b)"

section \<open>Data\<close>

datatype TradeType = BUY | SELL | RANGE

datatype OrderType = MARKET | LIMIT | LIMIT_MAKER

datatype PriceType = BestBid | BestAsk | MidPrice | LastTrade

record OrderCandidate =
  oc_trading_pair :: string
  is_maker :: bool
  order_type :: OrderType
  order_side :: TradeType
  amount :: Decimal
  oc_price :: Decimal

text \<open>
  One row of the candle frame. Beside its close a row carries the two values that the
  indicator library computes for it with length 30. Whether they are visible as the columns
  \<^verbatim>\<open>RSI_30\<close> and \<^verbatim>\<open>NATR_30\<close> is decided by \<^verbatim>\<open>get_candles_with_features\<close> below. The indicator
  formulas are taken as given and their values are numbers: the NaN that the library writes
  into the first rows of a column is outside the model.
\<close>

record candle =
  close :: pyfloat
  RSI_30 :: pyfloat
  NATR_30 :: pyfloat

record active_order =
  ao_trading_pair :: string
  client_order_id :: string

record trade =
  timestamp :: pyfloat
  trade_type_name :: string
  trade_price :: Decimal

record OrderFilledEvent =
  ev_trade_type :: TradeType
  ev_price :: Decimal

text \<open>The attributes of a \<^verbatim>\<open>MyPMM\<close> instance that the decision cycle reads or writes.\<close>

record MyPMM =
  bid_spread :: pyfloat
  ask_spread :: pyfloat
  order_refresh_time :: int
  order_amount :: pyfloat
  create_timestamp :: pyfloat
  trading_pair :: string
  exchange :: string
  price_source :: PriceType
  candles_length :: nat
  trade_history :: "trade list"

text \<open>The class attributes of the source, and the empty history of \<^verbatim>\<open>__init__\<close>.\<close>

definition MyPMM_init :: MyPMM where
  "MyPMM_init =
     \<lparr> bid_spread = float_of (1 / 10000),
       ask_spread = float_of (1 / 10000),
       order_refresh_time = 10,
       order_amount = float_of (1 / 100),
       create_timestamp = 0,
       trading_pair = ''ETH-USDT'',
       exchange = ''binance_paper_trade'',
       price_source = MidPrice,
       candles_length = 30,
       trade_history = [] \<rparr>"

text \<open>
  What the framework and the connector answer during one tick: the clock, the prices and
  balances, the frame \<^verbatim>\<open>self.candles.candles_df\<close> of the candle feed, the orders still open,
  and the budget checker. They are collaborators of the strategy and are taken as given.
\<close>

record connector =
  current_timestamp :: pyfloat
  get_price_by_type :: "string \<Rightarrow> PriceType \<Rightarrow> Decimal"
  get_balance :: "string \<Rightarrow> Decimal"
  raw_candles_df :: "candle list"
  get_active_orders :: "active_order list"
  adjust_candidates :: "OrderCandidate list \<Rightarrow> bool \<Rightarrow> OrderCandidate list"

text \<open>The requests the strategy sends to the exchange, in the order it sends them.\<close>

datatype call =
  Cancel string string string
| Buy string string Decimal OrderType Decimal
| Sell string string Decimal OrderType Decimal

datatype error = IndexError | KeyError | ValueError

section \<open>Operations\<close>

text \<open>\<^verbatim>\<open>series.iloc[i]\<close>: a negative index counts from the end, out of range raises.\<close>

definition iloc :: "'a list \<Rightarrow> int \<Rightarrow> error + 'a" where
  "iloc xs i =
     (if 0 \<le> i \<and> i < int (length xs) then Inr (xs ! nat i)
      else if i < 0 \<and> - int (length xs) \<le> i then Inr (xs ! nat (int (length xs) + i))
      else Inl IndexError)"

text \<open>\<^verbatim>\<open>s.split(c)\<close> for a one-character separator.\<close>

fun str_split :: "char \<Rightarrow> string \<Rightarrow> string list" where
  "str_split c [] = [[]]"
| "str_split c (x # xs) =
     (if x = c then [] # str_split c xs
      else (case str_split c xs of w # ws \<Rightarrow> (x # w) # ws | [] \<Rightarrow> [[x]]))"

text \<open>
  \<^verbatim>\<open>get_inventory_ratio\<close> (lines 172-183). Unpacking the split pair into two names raises
  \<^verbatim>\<open>ValueError\<close> unless there are exactly two parts.
\<close>

definition get_inventory_ratio :: "MyPMM \<Rightarrow> connector \<Rightarrow> error + pyfloat" where
  "get_inventory_ratio self c =
     (case str_split CHR ''-'' (trading_pair self) of
        [base_asset, quote_asset] \<Rightarrow>
          (let base_balance = get_balance c base_asset;
               quote_balance = get_balance c quote_asset;
               price = get_price_by_type c (trading_pair self) MidPrice;
               base_value = Decimal_mul base_balance price;
               total_value = Decimal_add base_value quote_balance
           in if total_value = 0 then Inr (float_of (1 / 2))
              else Inr (float_of (Decimal_truediv base_value total_value)))
      | _ \<Rightarrow> Inl ValueError)"

text \<open>Lines 84-86: the base spreads scaled by the volatility \<^verbatim>\<open>natr\<close>.\<close>

definition spread_multiplier :: "pyfloat \<Rightarrow> Decimal" where
  "spread_multiplier natr = Decimal_of_float (float_add 1 (float_truediv natr 100))"

definition volatility_spreads :: "MyPMM \<Rightarrow> pyfloat \<Rightarrow> Decimal \<times> Decimal" where
  "volatility_spreads self natr =
     (Decimal_mul (Decimal_of_float (bid_spread self)) (spread_multiplier natr),
      Decimal_mul (Decimal_of_float (ask_spread self)) (spread_multiplier natr))"

text \<open>Lines 89-90: the divergence flags of the last two samples.\<close>

definition bearish_divergence :: "pyfloat \<Rightarrow> pyfloat \<Rightarrow> pyfloat \<Rightarrow> pyfloat \<Rightarrow> bool" where
  "bearish_divergence rsi rsi_prev price price_prev \<longleftrightarrow> rsi < rsi_prev \<and> price > price_prev"

definition bullish_divergence :: "pyfloat \<Rightarrow> pyfloat \<Rightarrow> pyfloat \<Rightarrow> pyfloat \<Rightarrow> bool" where
  "bullish_divergence rsi rsi_prev price price_prev \<longleftrightarrow> rsi > rsi_prev \<and> price < price_prev"

text \<open>Lines 93-96: the inventory skew, an \<^verbatim>\<open>if\<close> with one \<^verbatim>\<open>elif\<close> and no \<^verbatim>\<open>else\<close>.\<close>

definition skew_spreads :: "pyfloat \<Rightarrow> bool \<Rightarrow> bool \<Rightarrow> Decimal \<times> Decimal \<Rightarrow> Decimal \<times> Decimal" where
  "skew_spreads inventory_ratio bearish bullish spreads =
     (case spreads of (bid, ask) \<Rightarrow>
        if inventory_ratio > float_of (7 / 10) \<and> bearish
        then (bid, Decimal_mul ask (Decimal_of_float (float_of (9 / 10))))
        else if inventory_ratio < float_of (3 / 10) \<and> bullish
        then (Decimal_mul bid (Decimal_of_float (float_of (9 / 10))), ask)
        else (bid, ask))"

text \<open>Lines 98-107: the two order candidates.\<close>

definition build_orders :: "MyPMM \<Rightarrow> Decimal \<Rightarrow> Decimal \<times> Decimal \<Rightarrow> OrderCandidate list" where
  "build_orders self ref_price spreads =
     (case spreads of (bid, ask) \<Rightarrow>
        let buy_price = Decimal_mul ref_price (Decimal_sub 1 bid);
            sell_price = Decimal_mul ref_price (Decimal_add 1 ask);
            buy_order = \<lparr> oc_trading_pair = trading_pair self, is_maker = True,
                          order_type = LIMIT, order_side = BUY,
                          amount = Decimal_of_float (order_amount self), oc_price = buy_price \<rparr>;
            sell_order = \<lparr> oc_trading_pair = trading_pair self, is_maker = True,
                           order_type = LIMIT, order_side = SELL,
                           amount = Decimal_of_float (order_amount self), oc_price = sell_price \<rparr>
        in [buy_order, sell_order])"

text \<open>
  The frame that \<^verbatim>\<open>get_candles_with_features\<close> returns: the rows and, for each of the two
  indicators, the length of the column that was appended, if one was. The library names a
  column after the indicator and its length: \<^verbatim>\<open>RSI_30\<close> and \<^verbatim>\<open>NATR_30\<close> for length 30.
\<close>

record DataFrame =
  rows :: "candle list"
  rsi_appended :: "nat option"
  natr_appended :: "nat option"

text \<open>
  \<^verbatim>\<open>df.ta.rsi(length=n, append=True)\<close> and \<^verbatim>\<open>df.ta.natr(length=n, append=True)\<close> of the
  indicator library, which is not part of the repository: on a frame with fewer rows than
  \<open>n\<close> the library computes nothing and appends no column.
\<close>

definition ta_append :: "nat \<Rightarrow> candle list \<Rightarrow> nat option" where
  "ta_append n df = (if length df < n then None else Some n)"

text \<open>\<^verbatim>\<open>get_candles_with_features\<close> (lines 66-70).\<close>

definition get_candles_with_features :: "MyPMM \<Rightarrow> connector \<Rightarrow> DataFrame" where
  "get_candles_with_features self c =
     \<lparr> rows = raw_candles_df c,
       rsi_appended = ta_append (candles_length self) (raw_candles_df c),
       natr_appended = ta_append (candles_length self) (raw_candles_df c) \<rparr>"

text \<open>
  The column lookups \<^verbatim>\<open>df["RSI_30"]\<close>, \<^verbatim>\<open>df["NATR_30"]\<close> and \<^verbatim>\<open>df["close"]\<close>: a column that
  is not in the frame raises \<^verbatim>\<open>KeyError\<close>. The feed always delivers the close column.
\<close>

definition column_RSI_30 :: "DataFrame \<Rightarrow> error + pyfloat list" where
  "column_RSI_30 df =
     (if rsi_appended df = Some 30 then Inr (map RSI_30 (rows df)) else Inl KeyError)"

definition column_NATR_30 :: "DataFrame \<Rightarrow> error + pyfloat list" where
  "column_NATR_30 df =
     (if natr_appended df = Some 30 then Inr (map NATR_30 (rows df)) else Inl KeyError)"

definition column_close :: "DataFrame \<Rightarrow> error + pyfloat list" where
  "column_close df = Inr (map close (rows df))"

text \<open>\<^verbatim>\<open>df[name].iloc[i]\<close>: the lookup of the column comes first.\<close>

definition column_iloc :: "error + 'a list \<Rightarrow> int \<Rightarrow> error + 'a" where
  "column_iloc column i = (case column of Inl e \<Rightarrow> Inl e | Inr xs \<Rightarrow> iloc xs i)"

text \<open>
  \<^verbatim>\<open>create_proposal\<close> (lines 72-107). The five reads of lines 77-81 come before any
  arithmetic: on a frame without the indicator columns the first of them raises
  \<^verbatim>\<open>KeyError\<close>. The \<^verbatim>\<open>print\<close> of the ratio is not modelled.
\<close>

definition create_proposal :: "MyPMM \<Rightarrow> connector \<Rightarrow> error + OrderCandidate list" where
  "create_proposal self c =
     (let ref_price = get_price_by_type c (trading_pair self) (price_source self) in
      (case get_inventory_ratio self c of Inl e \<Rightarrow> Inl e | Inr inventory_ratio \<Rightarrow>
      (let candles_df = get_candles_with_features self c in
      (case column_iloc (column_RSI_30 candles_df) (- 1) of Inl e \<Rightarrow> Inl e | Inr rsi \<Rightarrow>
      (case column_iloc (column_RSI_30 candles_df) (- 2) of Inl e \<Rightarrow> Inl e | Inr rsi_prev \<Rightarrow>
      (case column_iloc (column_close candles_df) (- 1) of Inl e \<Rightarrow> Inl e | Inr price \<Rightarrow>
      (case column_iloc (column_close candles_df) (- 2) of Inl e \<Rightarrow> Inl e | Inr price_prev \<Rightarrow>
      (case column_iloc (column_NATR_30 candles_df) (- 1) of Inl e \<Rightarrow> Inl e | Inr natr \<Rightarrow>
         Inr (build_orders self ref_price
                (skew_spreads inventory_ratio
                   (bearish_divergence rsi rsi_prev price price_prev)
                   (bullish_divergence rsi rsi_prev price price_prev)
                   (volatility_spreads self natr)))))))))))"

text \<open>\<^verbatim>\<open>adjust_proposal_to_budget\<close> (lines 109-112).\<close>

definition adjust_proposal_to_budget :: "connector \<Rightarrow> OrderCandidate list \<Rightarrow> OrderCandidate list" where
  "adjust_proposal_to_budget c proposal = adjust_candidates c proposal True"

text \<open>\<^verbatim>\<open>place_order\<close> (lines 118-124): a side that is neither SELL nor BUY sends nothing.\<close>

definition place_order :: "string \<Rightarrow> OrderCandidate \<Rightarrow> call list" where
  "place_order connector_name order =
     (if order_side order = SELL
      then [Sell connector_name (oc_trading_pair order) (amount order) (order_type order) (oc_price order)]
      else if order_side order = BUY
      then [Buy connector_name (oc_trading_pair order) (amount order) (order_type order) (oc_price order)]
      else [])"

text \<open>\<^verbatim>\<open>place_orders\<close> (lines 114-116).\<close>

fun place_orders :: "MyPMM \<Rightarrow> OrderCandidate list \<Rightarrow> call list" where
  "place_orders self [] = []"
| "place_orders self (order # proposal) = place_order (exchange self) order @ place_orders self proposal"

text \<open>\<^verbatim>\<open>cancel_all_orders\<close> (lines 126-128).\<close>

fun cancel_orders :: "MyPMM \<Rightarrow> active_order list \<Rightarrow> call list" where
  "cancel_orders self [] = []"
| "cancel_orders self (order # orders) =
     Cancel (exchange self) (ao_trading_pair order) (client_order_id order) # cancel_orders self orders"

definition cancel_all_orders :: "MyPMM \<Rightarrow> connector \<Rightarrow> call list" where
  "cancel_all_orders self c = cancel_orders self (get_active_orders c)"

text \<open>
  \<^verbatim>\<open>on_tick\<close> (lines 58-64). The result is the exception that left the method, if any, the
  instance after the tick and the requests sent during it. An exception of
  \<^verbatim>\<open>create_proposal\<close> leaves after the cancellations were sent and before the timestamp
  is written. In the sum of line 64 the integer interval is converted to a float first.
\<close>

definition on_tick :: "MyPMM \<Rightarrow> connector \<Rightarrow> error option \<times> MyPMM \<times> call list" where
  "on_tick self c =
     (if create_timestamp self \<le> current_timestamp c then
        let cancels = cancel_all_orders self c in
        case create_proposal self c of
          Inl e \<Rightarrow> (Some e, self, cancels)
        | Inr proposal \<Rightarrow>
            let proposal_adjusted = adjust_proposal_to_budget c proposal;
                placed = place_orders self proposal_adjusted
            in (None,
                self\<lparr>create_timestamp :=
                  float_add (float_of (of_int (order_refresh_time self))) (current_timestamp c)\<rparr>,
                cancels @ placed)
      else (None, self, []))"

fun TradeType_name :: "TradeType \<Rightarrow> string" where
  "TradeType_name BUY = ''BUY''"
| "TradeType_name SELL = ''SELL''"
| "TradeType_name RANGE = ''RANGE''"

text \<open>\<^verbatim>\<open>did_fill_order\<close> (lines 130-135), without the log line and the notification.\<close>

definition did_fill_order :: "MyPMM \<Rightarrow> connector \<Rightarrow> OrderFilledEvent \<Rightarrow> MyPMM" where
  "did_fill_order self c event =
     self\<lparr>trade_history := trade_history self @
       [\<lparr> timestamp = current_timestamp c,
          trade_type_name = TradeType_name (ev_trade_type event),
          trade_price = ev_price event \<rparr>]\<rparr>"

section \<open>Concrete inputs\<close>

text \<open>
  Connector answers at which the theorems below are evaluated. \<open>connector_no_candles\<close> is
  the start of a session: the candle feed has delivered nothing yet and one order is open.
  \<open>connector_flat\<close> has sixty rows, twice the indicator length.
\<close>

definition flat_candle :: candle where
  "flat_candle = \<lparr> close = 2000, RSI_30 = 50, NATR_30 = 0 \<rparr>"

definition connector_no_candles :: connector where
  "connector_no_candles =
     \<lparr> current_timestamp = 100,
       get_price_by_type = (\<lambda>pair price_type. 100),
       get_balance = (\<lambda>asset. 0),
       raw_candles_df = [],
       get_active_orders = [\<lparr> ao_trading_pair = ''ETH-USDT'', client_order_id = ''order-1'' \<rparr>],
       adjust_candidates = (\<lambda>proposal all_or_none. proposal) \<rparr>"

definition connector_one_candle :: connector where
  "connector_one_candle = connector_no_candles\<lparr>raw_candles_df := [flat_candle]\<rparr>"

definition connector_two_candles :: connector where
  "connector_two_candles = connector_no_candles\<lparr>raw_candles_df := [flat_candle, flat_candle]\<rparr>"

definition connector_flat :: connector where
  "connector_flat = connector_no_candles\<lparr>raw_candles_df := replicate 60 flat_candle\<rparr>"

definition connector_no_budget :: connector where
  "connector_no_budget = connector_flat\<lparr>adjust_candidates := (\<lambda>proposal all_or_none. [])\<rparr>"

definition connector_funded :: connector where
  "connector_funded =
     connector_flat\<lparr>get_balance := (\<lambda>asset. if asset = ''ETH'' then 3 else 100)\<rparr>"

section \<open>Rounding\<close>

subsection \<open>Ties to even on the integers\<close>

lemma rhe_of_int: "round_half_even (of_int n) = n"
  by (simp add: round_half_even_def)

lemma rhe_floor_cases: "round_half_even x = \<lfloor>x\<rfloor> \<or> round_half_even x = \<lfloor>x\<rfloor> + 1"
  by (simp add: round_half_even_def Let_def)

lemma rhe_bounds: "\<bar>of_int (round_half_even x) - x\<bar> \<le> 1 / 2"
proof -
  have f: "of_int \<lfloor>x\<rfloor> \<le> x" "x < of_int \<lfloor>x\<rfloor> + 1" by linarith+
  show ?thesis
  proof (cases "x - of_int \<lfloor>x\<rfloor> < 1 / 2")
    case True
    then have "round_half_even x = \<lfloor>x\<rfloor>" by (simp add: round_half_even_def Let_def)
    with True f show ?thesis by simp
  next
    case False
    show ?thesis
    proof (cases "1 / 2 < x - of_int \<lfloor>x\<rfloor>")
      case True
      with False have "round_half_even x = \<lfloor>x\<rfloor> + 1" by (simp add: round_half_even_def Let_def)
      with True f show ?thesis by simp
    next
      case F2: False
      with False have r: "x - of_int \<lfloor>x\<rfloor> = 1 / 2" by linarith
      from rhe_floor_cases[of x] show ?thesis
      proof
        assume "round_half_even x = \<lfloor>x\<rfloor>" with r show ?thesis by simp
      next
        assume "round_half_even x = \<lfloor>x\<rfloor> + 1" with r show ?thesis by simp
      qed
    qed
  qed
qed

lemma rhe_eqI:
  assumes "\<bar>x - of_int n\<bar> < 1 / 2"
  shows "round_half_even x = n"
proof (cases "of_int n \<le> x")
  case True
  with assms have "x < of_int n + 1" by linarith
  with True have fl: "\<lfloor>x\<rfloor> = n" by linarith
  with assms True have "x - of_int \<lfloor>x\<rfloor> < 1 / 2" by simp
  then show ?thesis using fl by (simp add: round_half_even_def Let_def)
next
  case False
  with assms have "of_int (n - 1) \<le> x" "x < of_int (n - 1) + 1" by simp_all
  then have fl: "\<lfloor>x\<rfloor> = n - 1" by linarith
  with assms False have "1 / 2 < x - of_int \<lfloor>x\<rfloor>" by simp
  then show ?thesis using fl by (simp add: round_half_even_def Let_def)
qed

lemma rhe_mono:
  assumes "x \<le> y"
  shows "round_half_even x \<le> round_half_even y"
proof -
  have le: "\<lfloor>x\<rfloor> \<le> \<lfloor>y\<rfloor>" using assms by (rule floor_mono)
  show ?thesis
  proof (cases "\<lfloor>x\<rfloor> < \<lfloor>y\<rfloor>")
    case True
    from rhe_floor_cases[of x] have "round_half_even x \<le> \<lfloor>x\<rfloor> + 1" by auto
    moreover from rhe_floor_cases[of y] have "\<lfloor>y\<rfloor> \<le> round_half_even y" by auto
    ultimately show ?thesis using True by linarith
  next
    case False
    with le have eq: "\<lfloor>x\<rfloor> = \<lfloor>y\<rfloor>" by simp
    then have "x - of_int \<lfloor>x\<rfloor> \<le> y - of_int \<lfloor>y\<rfloor>" using assms by simp
    then show ?thesis using eq
      by (simp add: round_half_even_def Let_def)
  qed
qed

lemma rhe_minus: "round_half_even (- x) = - round_half_even x"
proof (cases "x = of_int \<lfloor>x\<rfloor>")
  case True
  then obtain n where "x = of_int n" ..
  then have "- x = of_int (- n)" by simp
  then show ?thesis unfolding \<open>x = of_int n\<close> by (simp only: rhe_of_int flip: of_int_minus)
next
  case False
  have f: "of_int \<lfloor>x\<rfloor> \<le> x" "x < of_int \<lfloor>x\<rfloor> + 1" by linarith+
  with False have lt: "of_int \<lfloor>x\<rfloor> < x" by linarith
  have "of_int (- \<lfloor>x\<rfloor> - 1) \<le> - x" "- x < of_int (- \<lfloor>x\<rfloor> - 1) + 1" using f lt by simp_all
  then have fm: "\<lfloor>- x\<rfloor> = - \<lfloor>x\<rfloor> - 1" by linarith
  show ?thesis
    using f lt unfolding round_half_even_def Let_def fm
    by (auto simp: algebra_simps)
qed


lemma digits_pos: "1 \<le> digits b n"
  by (induction b n rule: digits.induct) (subst digits.simps, auto)

lemma digits_bounds:
  assumes "2 \<le> b" "1 \<le> n"
  shows "b ^ nat (digits b n - 1) \<le> n \<and> n < b ^ nat (digits b n)"
  using assms
proof (induction b n rule: digits.induct)
  case (1 b n)
  show ?case
  proof (cases "n < b")
    case True
    then show ?thesis using 1(3) by (subst (1 2) digits.simps) simp
  next
    case False
    then have nb: "\<not> (n < b \<or> b < 2)" using 1(2) by simp
    have d1: "1 \<le> n div b"
      using pos_imp_zdiv_pos_iff[of b n] False 1(2) by linarith
    from 1(1)[OF nb 1(2) d1]
    have ih: "b ^ nat (digits b (n div b) - 1) \<le> n div b" "n div b < b ^ nat (digits b (n div b))"
      by simp_all
    have eq: "digits b n = 1 + digits b (n div b)" using nb by (subst digits.simps) simp
    have dp: "1 \<le> digits b (n div b)" by (rule digits_pos)
    have bpos: "0 < b" using 1(2) by simp
    have nat1: "nat (digits b n - 1) = Suc (nat (digits b (n div b) - 1))"
      using eq dp by simp
    have nat2: "nat (digits b n) = Suc (nat (digits b (n div b)))"
      using eq dp by simp
    have "b * b ^ nat (digits b (n div b) - 1) \<le> b * (n div b)"
      using ih(1) bpos by simp
    also have "\<dots> \<le> n"
      using bpos pos_mod_sign[of b n] minus_mod_eq_mult_div[of n b] by linarith
    finally have lo: "b ^ nat (digits b n - 1) \<le> n" unfolding nat1 by simp
    have "n < b * (n div b) + b"
      using bpos pos_mod_bound[of b n] minus_mod_eq_mult_div[of n b] by linarith
    also have "\<dots> = b * (n div b + 1)" by (simp add: algebra_simps)
    also have "\<dots> \<le> b * b ^ nat (digits b (n div b))"
      using ih(2) bpos by simp
    finally have hi: "n < b ^ nat (digits b n)" unfolding nat2 by simp
    from lo hi show ?thesis ..
  qed
qed


lemma floor_log_bounds:
  assumes b: "2 \<le> b" and x: "0 < x"
  shows "of_int b powi floor_log b x \<le> x \<and> x < of_int b powi (floor_log b x + 1)"
proof -
  obtain n d where q: "quotient_of x = (n, d)" by (cases "quotient_of x")
  have d: "0 < d" using q by (rule quotient_of_denom_pos)
  have xe: "x = of_int n / of_int d" using q by (rule quotient_of_div)
  have n: "0 < n" using x d unfolding xe by (simp add: zero_less_divide_iff)
  define B :: rat where "B = of_int b"
  have B: "1 < B" "0 < B" "B \<noteq> 0" using b by (simp_all add: B_def)
  define a c where "a = digits b n" and "c = digits b d"
  have a1: "1 \<le> a" and c1: "1 \<le> c" by (simp_all add: a_def c_def digits_pos)
  have pw: "B powi k = of_int (b ^ nat k)" if "0 \<le> k" for k
    using that by (simp add: power_int_def B_def)
  from digits_bounds[OF b, of n] n
  have ni: "b ^ nat (a - 1) \<le> n" "n < b ^ nat a" by (simp_all add: a_def)
  have nb: "B powi (a - 1) \<le> of_int n" "of_int n < B powi a"
    using a1 ni by (simp_all only: pw of_int_le_iff of_int_less_iff)
  from digits_bounds[OF b, of d] d
  have di: "b ^ nat (c - 1) \<le> d" "d < b ^ nat c" by (simp_all add: c_def)
  have db: "B powi (c - 1) \<le> of_int d" "of_int d < B powi c"
    using c1 di by (simp_all only: pw of_int_le_iff of_int_less_iff)
  have dpos: "(0::rat) < of_int d" using d by simp
  have hi: "x < B powi (a - c + 1)"
  proof -
    have "x < B powi a / of_int d" unfolding xe using nb(2) dpos by (simp add: divide_strict_right_mono)
    also have "\<dots> \<le> B powi a / B powi (c - 1)"
      using db(1) B dpos by (intro divide_left_mono) (simp_all add: less_imp_le)
    also have "\<dots> = B powi (a - (c - 1))" using B by (simp add: power_int_diff)
    finally show ?thesis by (simp add: algebra_simps)
  qed
  have lo: "B powi (a - c - 1) < x"
  proof -
    have "B powi (a - c - 1) = B powi ((a - 1) - c)" by (simp add: algebra_simps)
    also have "\<dots> = B powi (a - 1) / B powi c" using B by (simp add: power_int_diff)
    also have "\<dots> < B powi (a - 1) / of_int d"
      using db(2) B dpos by (intro divide_strict_left_mono) simp_all
    also have "\<dots> \<le> x" unfolding xe using nb(1) dpos by (simp add: divide_right_mono)
    finally show ?thesis .
  qed
  have fl: "floor_log b x = (if B powi (a - c) \<le> x then a - c else a - c - 1)"
    by (simp add: floor_log_def q a_def c_def B_def Let_def)
  show ?thesis
  proof (cases "B powi (a - c) \<le> x")
    case True
    then show ?thesis using hi fl by (simp add: B_def)
  next
    case False
    then show ?thesis using lo fl by (simp add: B_def)
  qed
qed

lemma floor_log_eqI:
  assumes b: "2 \<le> b" and lo: "of_int b powi k \<le> x" and hi: "x < of_int b powi (k + 1)"
  shows "floor_log b x = k"
proof -
  define B :: rat where "B = of_int b"
  have B: "1 < B" using b by (simp add: B_def)
  have "0 < B powi k" using B by (intro zero_less_power_int) simp
  with lo have x: "0 < x" unfolding B_def by linarith
  from floor_log_bounds[OF b x]
  have f: "B powi floor_log b x \<le> x" "x < B powi (floor_log b x + 1)" by (simp_all add: B_def)
  have canc: "m < n" if "B powi m < B powi n" for m n
  proof (rule ccontr)
    assume "\<not> m < n"
    then have "B powi n \<le> B powi m" using B by (intro power_int_increasing) simp_all
    with that show False by simp
  qed
  have "B powi k < B powi (floor_log b x + 1)" using lo f(2) by (simp add: B_def)
  then have 1: "k < floor_log b x + 1" by (rule canc)
  have "B powi floor_log b x < B powi (k + 1)" using hi f(1) by (simp add: B_def)
  then have 2: "floor_log b x < k + 1" by (rule canc)
  from 1 2 show ?thesis by simp
qed


lemma powi_less_cancel:
  fixes B :: rat
  assumes "1 < B" "B powi m < B powi n"
  shows "m < n"
proof (rule ccontr)
  assume "\<not> m < n"
  then have "B powi n \<le> B powi m" using assms(1) by (intro power_int_increasing) simp_all
  with assms(2) show False by simp
qed

lemma floor_log_mono:
  assumes b: "2 \<le> b" and x: "0 < x" and xy: "x \<le> y"
  shows "floor_log b x \<le> floor_log b y"
proof -
  have y: "0 < y" using x xy by simp
  have "of_int b powi floor_log b x \<le> x" using floor_log_bounds[OF b x] by simp
  also have "x \<le> y" by fact
  also have "y < of_int b powi (floor_log b y + 1)" using floor_log_bounds[OF b y] by simp
  finally have "floor_log b x < floor_log b y + 1"
    using b by (intro powi_less_cancel[of "of_int b"]) simp_all
  then show ?thesis by simp
qed

lemma round_to_minus: "round_to b p emin (- x) = - round_to b p emin x"
  by (simp add: round_to_def Let_def rhe_minus)

lemma round_to_0: "round_to b p emin 0 = 0"
  by (simp add: round_to_def)

lemma round_to_le_grid:
  assumes b: "2 \<le> b" and le: "x \<le> of_int m * of_int b powi q"
    and q: "q = max (floor_log b \<bar>x\<bar> - p + 1) emin" and x: "x \<noteq> 0"
  shows "round_to b p emin x \<le> of_int m * of_int b powi q"
proof -
  have pos: "(0::rat) < of_int b powi q" using b by (intro zero_less_power_int) simp
  have "x / of_int b powi q \<le> of_int m" using le pos by (simp add: pos_divide_le_eq)
  then have "round_half_even (x / of_int b powi q) \<le> m"
    using rhe_mono[of "x / of_int b powi q" "of_int m"] by (simp add: rhe_of_int)
  then have "(of_int (round_half_even (x / of_int b powi q)) :: rat) \<le> of_int m" by simp
  then show ?thesis using pos x by (simp add: round_to_def Let_def flip: q)
qed

lemma round_to_ge_grid:
  assumes b: "2 \<le> b" and le: "of_int m * of_int b powi q \<le> x"
    and q: "q = max (floor_log b \<bar>x\<bar> - p + 1) emin" and x: "x \<noteq> 0"
  shows "of_int m * of_int b powi q \<le> round_to b p emin x"
proof -
  have pos: "(0::rat) < of_int b powi q" using b by (intro zero_less_power_int) simp
  have "of_int m \<le> x / of_int b powi q" using le pos by (simp add: pos_le_divide_eq)
  then have "m \<le> round_half_even (x / of_int b powi q)"
    using rhe_mono[of "of_int m" "x / of_int b powi q"] by (simp add: rhe_of_int)
  then have "(of_int m :: rat) \<le> of_int (round_half_even (x / of_int b powi q))" by simp
  then show ?thesis using pos x by (simp add: round_to_def Let_def flip: q)
qed

lemma round_to_nonneg:
  assumes b: "2 \<le> b" and x: "0 \<le> x"
  shows "0 \<le> round_to b p emin x"
proof (cases "x = 0")
  case True then show ?thesis by (simp add: round_to_0)
next
  case False
  have "of_int 0 * of_int b powi (max (floor_log b \<bar>x\<bar> - p + 1) emin) \<le> round_to b p emin x"
    using x False by (intro round_to_ge_grid[OF b]) simp_all
  then show ?thesis by simp
qed


lemma powi_split:
  fixes b :: int
  assumes "2 \<le> b" "k \<le> e"
  shows "(of_int b :: rat) powi e = of_int (b ^ nat (e - k)) * of_int b powi k"
proof -
  have "(of_int b :: rat) powi e = of_int b powi ((e - k) + k)" by simp
  also have "\<dots> = of_int b powi (e - k) * of_int b powi k"
    using assms(1) by (subst power_int_add) simp_all
  also have "of_int b powi (e - k) = (of_int (b ^ nat (e - k)) :: rat)"
    using assms(2) by (simp add: power_int_def)
  finally show ?thesis .
qed

lemma round_to_mono_pos:
  assumes b: "2 \<le> b" and p: "1 \<le> p" and x: "0 < x" and xy: "x \<le> y"
  shows "round_to b p emin x \<le> round_to b p emin y"
proof -
  define B :: rat where "B = of_int b"
  have B: "1 < B" "0 < B" using b by (simp_all add: B_def)
  have y: "0 < y" using x xy by simp
  define ex ey where "ex = floor_log b x" and "ey = floor_log b y"
  define qx qy where "qx = max (ex - p + 1) emin" and "qy = max (ey - p + 1) emin"
  have exy: "ex \<le> ey" unfolding ex_def ey_def using b x xy by (rule floor_log_mono)
  then have qxy: "qx \<le> qy" unfolding qx_def qy_def by simp
  have rx: "round_to b p emin x = of_int (round_half_even (x / B powi qx)) * B powi qx"
    using x by (simp add: round_to_def Let_def qx_def ex_def B_def)
  have ry: "round_to b p emin y = of_int (round_half_even (y / B powi qy)) * B powi qy"
    using y by (simp add: round_to_def Let_def qy_def ey_def B_def)
  show ?thesis
  proof (cases "qx = qy")
    case True
    have pos: "0 < B powi qy" using B by (intro zero_less_power_int)
    have "x / B powi qy \<le> y / B powi qy" using xy pos by (simp add: divide_right_mono)
    then have "round_half_even (x / B powi qy) \<le> round_half_even (y / B powi qy)"
      by (rule rhe_mono)
    then have "(of_int (round_half_even (x / B powi qy)) :: rat) \<le> of_int (round_half_even (y / B powi qy))"
      by simp
    then show ?thesis unfolding rx ry True using pos by simp
  next
    case False
    with qxy have lt: "qx < qy" by simp
    have "emin \<le> qx" unfolding qx_def by simp
    with lt have qy: "qy = ey - p + 1" unfolding qy_def by linarith
    have "ex - p + 1 \<le> qx" unfolding qx_def by simp
    with lt qy have elt: "ex + 1 \<le> ey" by linarith
    have qxe: "qx \<le> ey" using lt qy p by linarith
    have qye: "qy \<le> ey" using qy p by linarith
    have "x < B powi (ex + 1)" using floor_log_bounds[OF b x] by (simp add: ex_def B_def)
    also have "\<dots> \<le> B powi ey" using elt B by (intro power_int_increasing) simp_all
    finally have "x \<le> of_int (b ^ nat (ey - qx)) * of_int b powi qx"
      using powi_split[OF b qxe] by (simp add: B_def)
    then have 1: "round_to b p emin x \<le> of_int (b ^ nat (ey - qx)) * of_int b powi qx"
      using x by (intro round_to_le_grid[OF b]) (simp_all add: qx_def ex_def)
    have "B powi ey \<le> y" using floor_log_bounds[OF b y] by (simp add: ey_def B_def)
    then have "of_int (b ^ nat (ey - qy)) * of_int b powi qy \<le> y"
      using powi_split[OF b qye] by (simp add: B_def)
    then have 2: "of_int (b ^ nat (ey - qy)) * of_int b powi qy \<le> round_to b p emin y"
      using y by (intro round_to_ge_grid[OF b]) (simp_all add: qy_def ey_def)
    from 1 2 show ?thesis
      using powi_split[OF b qxe] powi_split[OF b qye] by simp
  qed
qed

lemma round_to_mono:
  assumes b: "2 \<le> b" and p: "1 \<le> p" and xy: "x \<le> y"
  shows "round_to b p emin x \<le> round_to b p emin y"
proof -
  consider "0 < x" | "x \<le> 0" "0 \<le> y" | "y < 0" by linarith
  then show ?thesis
  proof cases
    case 1
    then show ?thesis using xy by (intro round_to_mono_pos[OF b p])
  next
    case 2
    have "0 \<le> round_to b p emin (- x)" using 2(1) by (intro round_to_nonneg[OF b]) simp
    then have "round_to b p emin x \<le> 0" by (simp add: round_to_minus)
    also have "0 \<le> round_to b p emin y" using 2(2) by (intro round_to_nonneg[OF b])
    finally show ?thesis .
  next
    case 3
    have "round_to b p emin (- y) \<le> round_to b p emin (- x)"
      using 3 xy by (intro round_to_mono_pos[OF b p]) simp_all
    then show ?thesis by (simp add: round_to_minus)
  qed
qed


lemma round_to_grid:
  assumes b: "2 \<le> b" and k: "emin \<le> k" and m: "\<bar>m\<bar> < b ^ nat p"
  shows "round_to b p emin (of_int m * of_int b powi k) = of_int m * of_int b powi k"
proof (cases "m = 0")
  case True then show ?thesis by (simp add: round_to_0)
next
  case False
  define B :: rat where "B = of_int b"
  have B: "1 < B" "0 < B" "B \<noteq> 0" using b by (simp_all add: B_def)
  define y where "y = of_int m * B powi k"
  have Bk: "0 < B powi k" using B by (intro zero_less_power_int)
  have ay: "\<bar>y\<bar> = of_int \<bar>m\<bar> * B powi k" using Bk by (simp add: y_def abs_mult)
  have y0: "y \<noteq> 0" "0 < \<bar>y\<bar>" using False Bk B by (simp_all add: y_def)
  have p: "1 \<le> p"
  proof (rule ccontr)
    assume "\<not> 1 \<le> p" then have "nat p = 0" by simp
    with m False show False by simp
  qed
  define e where "e = floor_log b \<bar>y\<bar>"
  define q where "q = max (e - p + 1) emin"
  have "B powi e \<le> \<bar>y\<bar>" using floor_log_bounds[OF b y0(2)] by (simp add: e_def B_def)
  also have "\<bar>y\<bar> < of_int (b ^ nat p) * B powi k"
    unfolding ay using m Bk by (simp only: mult_less_cancel_right_pos of_int_less_iff)
  also have "of_int (b ^ nat p) = B powi p" using p by (simp add: power_int_def B_def)
  also have "B powi p * B powi k = B powi (p + k)" using B by (simp add: power_int_add)
  finally have "e < p + k" using B(1) by (intro powi_less_cancel[of B])
  with k have qk: "q \<le> k" unfolding q_def by simp
  have sc: "y / B powi q = of_int (m * b ^ nat (k - q))"
    unfolding y_def using powi_split[OF b qk] B by (simp add: B_def)
  have "round_to b p emin y = of_int (round_half_even (y / B powi q)) * B powi q"
    using y0 by (simp add: round_to_def Let_def q_def e_def B_def)
  also have "\<dots> = of_int (m * b ^ nat (k - q)) * B powi q"
    unfolding sc by (simp only: rhe_of_int)
  also have "\<dots> = y" unfolding y_def using powi_split[OF b qk] by (simp add: B_def)
  finally show ?thesis by (simp add: y_def B_def)
qed

lemma round_to_eqI:
  assumes b: "2 \<le> b"
    and lo: "of_int b powi e \<le> \<bar>x\<bar>" and hi: "\<bar>x\<bar> < of_int b powi (e + 1)"
    and q: "q = max (e - p + 1) emin"
    and n: "\<bar>x / of_int b powi q - of_int n\<bar> < 1 / 2"
  shows "round_to b p emin x = of_int n * of_int b powi q"
proof -
  have e: "floor_log b \<bar>x\<bar> = e" using b lo hi by (rule floor_log_eqI)
  have "(0::rat) < of_int b powi e" using b by (intro zero_less_power_int) simp
  with lo have "x \<noteq> 0" by auto
  then show ?thesis using rhe_eqI[OF n] by (simp add: round_to_def Let_def e q)
qed

lemma round_to_idem:
  assumes b: "2 \<le> b" and p: "1 \<le> p"
  shows "round_to b p emin (round_to b p emin x) = round_to b p emin x"
proof (cases "x = 0")
  case True then show ?thesis by (simp add: round_to_0)
next
  case False
  define B :: rat where "B = of_int b"
  have B: "1 < B" "0 < B" "B \<noteq> 0" using b by (simp_all add: B_def)
  define e where "e = floor_log b \<bar>x\<bar>"
  define q where "q = max (e - p + 1) emin"
  define m where "m = round_half_even (x / B powi q)"
  have r: "round_to b p emin x = of_int m * B powi q"
    using False by (simp add: round_to_def Let_def m_def q_def e_def B_def)
  have q: "emin \<le> q" "e + 1 - q \<le> p" unfolding q_def by simp_all
  have Bq: "0 < B powi q" using B by (intro zero_less_power_int)
  have ax: "0 < \<bar>x\<bar>" using False by simp
  have "\<bar>x\<bar> < B powi (e + 1)" using floor_log_bounds[OF b ax] by (simp add: e_def B_def)
  also have "\<dots> = B powi (e + 1 - q) * B powi q" using B by (simp flip: power_int_add)
  also have "\<dots> \<le> B powi p * B powi q"
    using q(2) B Bq by (intro mult_right_mono power_int_increasing) simp_all
  also have "B powi p = of_int (b ^ nat p)" using p by (simp add: power_int_def B_def)
  finally have "\<bar>x\<bar> / B powi q \<le> of_int (b ^ nat p)" using Bq by (simp add: pos_divide_le_eq)
  also have "\<bar>x\<bar> / B powi q = \<bar>x / B powi q\<bar>" using Bq by simp
  finally have s: "x / B powi q \<le> of_int (b ^ nat p)" "of_int (- (b ^ nat p)) \<le> x / B powi q"
    by (simp_all only: abs_le_iff of_int_minus) linarith
  have "m \<le> b ^ nat p" using rhe_mono[OF s(1)] by (simp only: rhe_of_int m_def)
  moreover have "- (b ^ nat p) \<le> m" using rhe_mono[OF s(2)] by (simp only: rhe_of_int m_def)
  ultimately consider "\<bar>m\<bar> < b ^ nat p" | "m = b ^ nat p" | "m = - (b ^ nat p)" by linarith
  then have "round_to b p emin (of_int m * B powi q) = of_int m * B powi q"
  proof cases
    case 1
    show ?thesis using round_to_grid[OF b q(1) 1] by (simp add: B_def)
  next
    case 2
    have np: "nat p = Suc (nat (p - 1))" using p by simp
    have eq: "of_int m * B powi q = of_int (b ^ nat (p - 1)) * B powi (q + 1)"
      unfolding 2 np using B by (simp add: power_int_add B_def)
    have lt: "\<bar>b ^ nat (p - 1)\<bar> < b ^ nat p" unfolding np using b by simp
    have "emin \<le> q + 1" using q(1) by simp
    from round_to_grid[OF b this lt] show ?thesis unfolding eq by (simp add: B_def)
  next
    case 3
    have np: "nat p = Suc (nat (p - 1))" using p by simp
    have eq: "of_int m * B powi q = of_int (- (b ^ nat (p - 1))) * B powi (q + 1)"
      unfolding 3 np using B by (simp add: power_int_add B_def)
    have lt: "\<bar>- (b ^ nat (p - 1))\<bar> < b ^ nat p" unfolding np using b by simp
    have "emin \<le> q + 1" using q(1) by simp
    from round_to_grid[OF b this lt] show ?thesis unfolding eq by (simp add: B_def)
  qed
  then show ?thesis unfolding r .
qed

subsection \<open>The two formats\<close>

lemma float_of_mono: "x \<le> y \<Longrightarrow> float_of x \<le> float_of y"
  unfolding float_of_def by (rule round_to_mono) simp_all

lemma context_round_mono: "x \<le> y \<Longrightarrow> context_round x \<le> context_round y"
  unfolding context_round_def by (rule round_to_mono) simp_all

lemma float_of_0: "float_of 0 = 0"
  by (simp add: float_of_def round_to_0)

lemma context_round_0: "context_round 0 = 0"
  by (simp add: context_round_def round_to_0)

lemma context_round_idem: "context_round (context_round x) = context_round x"
  unfolding context_round_def by (rule round_to_idem) simp_all

lemma float_of_int_exact: "\<bar>n\<bar> < 2 ^ 53 \<Longrightarrow> float_of (of_int n) = of_int n"
  unfolding float_of_def using round_to_grid[of 2 "- 1074" 0 n 53] by simp

lemma context_round_int_exact: "\<bar>n\<bar> < 10 ^ 28 \<Longrightarrow> context_round (of_int n) = of_int n"
  unfolding context_round_def using round_to_grid[of 10 "- 1000026" 0 n 28] by simp

lemma float_of_1: "float_of 1 = 1"
  using float_of_int_exact[of 1] by simp

lemma float_of_2: "float_of 2 = 2"
  using float_of_int_exact[of 2] by simp

lemma float_of_10: "float_of 10 = 10"
  using float_of_int_exact[of 10] by simp

lemma float_of_110: "float_of 110 = 110"
  using float_of_int_exact[of 110] by simp

lemma context_round_1: "context_round 1 = 1"
  using context_round_int_exact[of 1] by simp

lemma float_of_half: "float_of (1 / 2) = 1 / 2"
  unfolding float_of_def using round_to_grid[of 2 "- 1074" "- 1" 1 53] by simp

lemma float_of_0001: "float_of (1 / 10000) = 7378697629483821 / 2 ^ 66"
  unfolding float_of_def
  by (rule trans[OF round_to_eqI[where e = "- 14" and n = 7378697629483821 and q = "- 66"]])
     (simp_all add: power_int_minus_divide)

lemma float_of_001: "float_of (1 / 100) = 5764607523034235 / 2 ^ 59"
  unfolding float_of_def
  by (rule trans[OF round_to_eqI[where e = "- 7" and n = 5764607523034235 and q = "- 59"]])
     (simp_all add: power_int_minus_divide)

lemma float_of_09: "float_of (9 / 10) = 8106479329266893 / 2 ^ 53"
  unfolding float_of_def
  by (rule trans[OF round_to_eqI[where e = "- 1" and n = 8106479329266893 and q = "- 53"]])
     (simp_all add: power_int_minus_divide)

lemma float_of_07: "float_of (7 / 10) = 3152519739159347 / 2 ^ 52"
  unfolding float_of_def
  by (rule trans[OF round_to_eqI[where e = "- 1" and n = 6305039478318694 and q = "- 53"]])
     (simp_all add: power_int_minus_divide)

lemma float_of_08: "float_of (4 / 5) = 3602879701896397 / 2 ^ 52"
  unfolding float_of_def
  by (rule trans[OF round_to_eqI[where e = "- 1" and n = 7205759403792794 and q = "- 53"]])
     (simp_all add: power_int_minus_divide)

lemma context_round_bid: "context_round (7378697629483821 / 2 ^ 66) = 1000000000000000047921736024 / 10 ^ 31"
  unfolding context_round_def
  by (rule trans[OF round_to_eqI[where e = "- 4" and n = 1000000000000000047921736024 and q = "- 31"]])
     (simp_all add: power_int_minus_divide)

lemma context_round_one_minus_bid:
  "context_round (1 - 1000000000000000047921736024 / 10 ^ 31) = 9998999999999999999952078264 / 10 ^ 28"
  unfolding context_round_def
  by (rule trans[OF round_to_eqI[where e = "- 1" and n = 9998999999999999999952078264 and q = "- 28"]])
     (simp_all add: power_int_minus_divide)

lemma context_round_one_plus_ask:
  "context_round (1 + 1000000000000000047921736024 / 10 ^ 31) = 1000100000000000000004792174 / 10 ^ 27"
  unfolding context_round_def
  by (rule trans[OF round_to_eqI[where e = "0" and n = 1000100000000000000004792174 and q = "- 27"]])
     (simp_all add: power_int_minus_divide)

lemma context_round_buy_price:
  "context_round (100 * (9998999999999999999952078264 / 10 ^ 28)) = 9998999999999999999952078264 / 10 ^ 26"
  unfolding context_round_def
  by (rule trans[OF round_to_eqI[where e = "1" and n = 9998999999999999999952078264 and q = "- 26"]])
     (simp_all add: power_int_minus_divide)

lemma context_round_sell_price:
  "context_round (100 * (1000100000000000000004792174 / 10 ^ 27)) = 1000100000000000000004792174 / 10 ^ 25"
  unfolding context_round_def
  by (rule trans[OF round_to_eqI[where e = "2" and n = 1000100000000000000004792174 and q = "- 25"]])
     (simp_all add: power_int_minus_divide)

lemma context_round_skewed_ask:
  "context_round (1000000000000000047921736024 / 10 ^ 31 * (8106479329266893 / 2 ^ 53))
     = 9000000000000000653340229141 / 10 ^ 32"
  unfolding context_round_def
  by (rule trans[OF round_to_eqI[where e = "- 5" and n = 9000000000000000653340229141 and q = "- 32"]])
     (simp_all add: power_int_minus_divide)

section \<open>The strategy\<close>

lemma iloc_neg:
  assumes "0 < k" "k \<le> length xs"
  shows "iloc xs (- int k) = Inr (xs ! (length xs - k))"
proof -
  have e: "int (length xs) + - int k = int (length xs - k)" using assms by simp
  have "nat (int (length xs) + - int k) = length xs - k" unfolding e by (rule nat_int)
  then show ?thesis using assms by (simp add: iloc_def)
qed

lemma iloc_last: "iloc (xs @ [x, y]) (- 1) = Inr y"
  using iloc_neg[of 1 "xs @ [x, y]"] by (simp add: nth_append)

lemma iloc_last_but_one: "iloc (xs @ [x, y]) (- 2) = Inr x"
  using iloc_neg[of 2 "xs @ [x, y]"] by (simp add: nth_append)

lemma two_last:
  assumes "2 \<le> length xs"
  obtains ys x y where "xs = ys @ [x, y]"
proof -
  from assms have "xs \<noteq> []" by auto
  then obtain zs y where 1: "xs = zs @ [y]" by (metis rev_exhaust)
  with assms have "zs \<noteq> []" by auto
  then obtain ys x where 2: "zs = ys @ [x]" by (metis rev_exhaust)
  from 1 2 have "xs = ys @ [x, y]" by simp
  then show ?thesis ..
qed

lemma columns_absent:
  assumes "\<not> (candles_length self = 30 \<and> 30 \<le> length (raw_candles_df c))"
  shows "column_RSI_30 (get_candles_with_features self c) = Inl KeyError"
  using assms by (auto simp: column_RSI_30_def get_candles_with_features_def ta_append_def)

lemma columns_present:
  assumes "candles_length self = 30" "30 \<le> length (raw_candles_df c)"
  shows "column_RSI_30 (get_candles_with_features self c) = Inr (map RSI_30 (raw_candles_df c))"
    and "column_NATR_30 (get_candles_with_features self c) = Inr (map NATR_30 (raw_candles_df c))"
    and "column_close (get_candles_with_features self c) = Inr (map close (raw_candles_df c))"
  using assms
  by (simp_all add: column_RSI_30_def column_NATR_30_def column_close_def
        get_candles_with_features_def ta_append_def)

lemma create_proposal_no_columns:
  assumes "\<not> (candles_length self = 30 \<and> 30 \<le> length (raw_candles_df c))"
  shows "create_proposal self c =
           Inl (case get_inventory_ratio self c of Inl e \<Rightarrow> e | Inr r \<Rightarrow> KeyError)"
  by (simp add: create_proposal_def Let_def columns_absent[OF assms] column_iloc_def
        split: sum.splits)

lemma create_proposal_columns:
  assumes "create_proposal self c = Inr proposal"
  shows "candles_length self = 30 \<and> 30 \<le> length (raw_candles_df c)"
proof (rule ccontr)
  assume "\<not> (candles_length self = 30 \<and> 30 \<le> length (raw_candles_df c))"
  from create_proposal_no_columns[OF this] assms show False by simp
qed

lemma create_proposal_eq:
  assumes "candles_length self = 30" "30 \<le> length (raw_candles_df c)"
    and "raw_candles_df c = xs @ [prev, cur]"
    and "get_inventory_ratio self c = Inr inventory_ratio"
  shows "create_proposal self c =
           Inr (build_orders self (get_price_by_type c (trading_pair self) (price_source self))
                  (skew_spreads inventory_ratio
                     (bearish_divergence (RSI_30 cur) (RSI_30 prev) (close cur) (close prev))
                     (bullish_divergence (RSI_30 cur) (RSI_30 prev) (close cur) (close prev))
                     (volatility_spreads self (NATR_30 cur))))"
proof -
  have l: "column_iloc (Inr (map f (xs @ [prev, cur]))) (- 1) = Inr (f cur)"
    "column_iloc (Inr (map f (xs @ [prev, cur]))) (- 2) = Inr (f prev)" for f :: "candle \<Rightarrow> rat"
    by (simp_all add: column_iloc_def iloc_last iloc_last_but_one)
  show ?thesis
    unfolding create_proposal_def Let_def columns_present[OF assms(1,2)] assms(3,4) l
    by simp
qed

lemma cancel_orders_only_cancel:
  "x \<in> set (cancel_orders self orders) \<Longrightarrow> \<exists>a b d. x = Cancel a b d"
  by (induction orders) auto

lemma get_inventory_ratio_pair:
  assumes "str_split CHR ''-'' (trading_pair self) = [base_asset, quote_asset]"
  shows "get_inventory_ratio self c =
     Inr (if Decimal_add (Decimal_mul (get_balance c base_asset)
                            (get_price_by_type c (trading_pair self) MidPrice))
                         (get_balance c quote_asset) = 0
          then float_of (1 / 2)
          else float_of (Decimal_truediv
                 (Decimal_mul (get_balance c base_asset)
                    (get_price_by_type c (trading_pair self) MidPrice))
                 (Decimal_add (Decimal_mul (get_balance c base_asset)
                            (get_price_by_type c (trading_pair self) MidPrice))
                         (get_balance c quote_asset))))"
  using assms by (simp add: get_inventory_ratio_def Let_def)

lemma ratio_no_funds:
  assumes "trading_pair self = ''ETH-USDT''" "get_balance c = (\<lambda>asset. 0)"
  shows "get_inventory_ratio self c = Inr (1 / 2)"
  using assms
  by (simp add: get_inventory_ratio_def Let_def Decimal_mul_def Decimal_add_def context_round_0 float_of_half)

lemma ratio_defined:
  assumes "length (str_split CHR ''-'' (trading_pair self)) = 2"
  obtains r where "get_inventory_ratio self c = Inr r"
proof -
  from assms obtain base_asset quote_asset
    where "str_split CHR ''-'' (trading_pair self) = [base_asset, quote_asset]"
    by (cases "str_split CHR ''-'' (trading_pair self)" rule: list.exhaust)
       (auto simp: length_Suc_conv)
  then show ?thesis using get_inventory_ratio_pair that by blast
qed

lemma create_proposal_ok:
  assumes "candles_length self = 30" "30 \<le> length (raw_candles_df c)"
    and "length (str_split CHR ''-'' (trading_pair self)) = 2"
  shows "\<exists>proposal. create_proposal self c = Inr proposal"
proof -
  from assms(2) have "2 \<le> length (raw_candles_df c)" by simp
  then obtain xs prev cur where c: "raw_candles_df c = xs @ [prev, cur]"
    by (rule two_last)
  obtain r where "get_inventory_ratio self c = Inr r"
    using assms(3) by (rule ratio_defined)
  with c show ?thesis using create_proposal_eq[OF assms(1,2)] by blast
qed

lemma cancel_init:
  assumes "get_active_orders c = [\<lparr> ao_trading_pair = ''ETH-USDT'', client_order_id = ''order-1'' \<rparr>]"
  shows "cancel_all_orders MyPMM_init c = [Cancel ''binance_paper_trade'' ''ETH-USDT'' ''order-1'']"
  using assms by (simp add: cancel_all_orders_def MyPMM_init_def)

section \<open>The claims\<close>

text \<open>
  C1, in the form that holds of the code. When a refresh cycle starts with fewer than two
  candle samples (the trading pair splitting into two asset names), \<^verbatim>\<open>on_tick\<close> first sends
  the cancellation of every open order and then leaves with a \<^verbatim>\<open>KeyError\<close>: the indicator
  library appends no \<^verbatim>\<open>RSI_30\<close> column to a frame shorter than the indicator length, and
  line 77 looks that column up. Nothing but cancellations is sent, no proposal is built, no
  order is placed, and the instance, its timestamp included, is unchanged, so the next tick
  tries again. The source has no \<^verbatim>\<open>InsufficientData\<close> condition and does not skip the
  cancellations.
\<close>

theorem short_series_cycle:
  assumes "length (raw_candles_df c) < 2"
    and "create_timestamp self \<le> current_timestamp c"
    and "length (str_split CHR ''-'' (trading_pair self)) = 2"
  shows "on_tick self c = (Some KeyError, self, cancel_all_orders self c)
         \<and> (\<forall>x \<in> set (cancel_all_orders self c). \<exists>a b d. x = Cancel a b d)"
proof -
  obtain r where r: "get_inventory_ratio self c = Inr r"
    using assms(3) by (rule ratio_defined)
  have "\<not> (candles_length self = 30 \<and> 30 \<le> length (raw_candles_df c))"
    using assms(1) by simp
  then have "create_proposal self c = Inl KeyError"
    by (simp add: create_proposal_no_columns r)
  then show ?thesis using assms(2)
    by (auto simp: on_tick_def Let_def cancel_all_orders_def dest: cancel_orders_only_cancel)
qed

theorem short_series_cycle_counterexample:
  "length (raw_candles_df connector_no_candles) < 2
   \<and> create_timestamp MyPMM_init \<le> current_timestamp connector_no_candles
   \<and> on_tick MyPMM_init connector_no_candles =
       (Some KeyError, MyPMM_init, [Cancel ''binance_paper_trade'' ''ETH-USDT'' ''order-1''])"
proof -
  have r: "get_inventory_ratio MyPMM_init connector_no_candles = Inr (1 / 2)"
    by (rule ratio_no_funds) (simp_all add: MyPMM_init_def connector_no_candles_def)
  have 1: "length (raw_candles_df connector_no_candles) < 2"
    by (simp add: connector_no_candles_def)
  have 2: "create_timestamp MyPMM_init \<le> current_timestamp connector_no_candles"
    by (simp add: MyPMM_init_def connector_no_candles_def)
  have 3: "cancel_all_orders MyPMM_init connector_no_candles
            = [Cancel ''binance_paper_trade'' ''ETH-USDT'' ''order-1'']"
    by (rule cancel_init) (simp add: connector_no_candles_def)
  have 4: "create_proposal MyPMM_init connector_no_candles = Inl KeyError"
    using 1 by (simp add: create_proposal_no_columns r)
  have "on_tick MyPMM_init connector_no_candles =
       (Some KeyError, MyPMM_init, [Cancel ''binance_paper_trade'' ''ETH-USDT'' ''order-1''])"
    using 2 by (simp add: on_tick_def Let_def 3 4)
  with 1 2 show ?thesis by simp
qed

theorem short_series_cycle_witness:
  "length (raw_candles_df connector_one_candle) < 2
   \<and> create_timestamp MyPMM_init \<le> current_timestamp connector_one_candle
   \<and> length (str_split CHR ''-'' (trading_pair MyPMM_init)) = 2
   \<and> on_tick MyPMM_init connector_one_candle =
       (Some KeyError, MyPMM_init, [Cancel ''binance_paper_trade'' ''ETH-USDT'' ''order-1''])"
proof -
  have 1: "length (raw_candles_df connector_one_candle) < 2"
    by (simp add: connector_one_candle_def connector_no_candles_def)
  have 2: "create_timestamp MyPMM_init \<le> current_timestamp connector_one_candle"
    by (simp add: MyPMM_init_def connector_one_candle_def connector_no_candles_def)
  have 3: "length (str_split CHR ''-'' (trading_pair MyPMM_init)) = 2"
    by (simp add: MyPMM_init_def)
  have 4: "cancel_all_orders MyPMM_init connector_one_candle
            = [Cancel ''binance_paper_trade'' ''ETH-USDT'' ''order-1'']"
    by (rule cancel_init) (simp add: connector_one_candle_def connector_no_candles_def)
  from short_series_cycle[OF 1 2 3] have
    "on_tick MyPMM_init connector_one_candle =
       (Some KeyError, MyPMM_init, [Cancel ''binance_paper_trade'' ''ETH-USDT'' ''order-1''])"
    by (simp add: 4)
  with 1 2 3 show ?thesis by simp
qed

lemma spread_multiplier_0: "spread_multiplier 0 = 1"
  by (simp add: spread_multiplier_def float_add_def float_truediv_def Decimal_of_float_def
        float_of_0 float_of_1)

lemma volatility_spreads_init_0:
  "volatility_spreads MyPMM_init 0 =
     (1000000000000000047921736024 / 10 ^ 31, 1000000000000000047921736024 / 10 ^ 31)"
proof -
  have "Decimal_mul (Decimal_of_float (float_of (1 / 10000))) 1
          = 1000000000000000047921736024 / 10 ^ 31"
    unfolding Decimal_mul_def Decimal_of_float_def float_of_0001 mult_1_right
    by (rule context_round_bid)
  then show ?thesis
    by (simp only: volatility_spreads_def spread_multiplier_0 MyPMM_init_def MyPMM.simps)
qed

lemma skew_spreads_no_divergence: "skew_spreads r False False spreads = spreads"
  by (simp add: skew_spreads_def split: prod.splits)

lemma build_orders_init_flat:
  "build_orders MyPMM_init 100
     (1000000000000000047921736024 / 10 ^ 31, 1000000000000000047921736024 / 10 ^ 31) =
     [\<lparr> oc_trading_pair = ''ETH-USDT'', is_maker = True, order_type = LIMIT, order_side = BUY,
        amount = 5764607523034235 / 2 ^ 59,
        oc_price = 9998999999999999999952078264 / 10 ^ 26 \<rparr>,
      \<lparr> oc_trading_pair = ''ETH-USDT'', is_maker = True, order_type = LIMIT, order_side = SELL,
        amount = 5764607523034235 / 2 ^ 59,
        oc_price = 1000100000000000000004792174 / 10 ^ 25 \<rparr>]"
proof -
  have buy: "Decimal_mul 100 (Decimal_sub 1 (1000000000000000047921736024 / 10 ^ 31))
               = 9998999999999999999952078264 / 10 ^ 26"
    unfolding Decimal_mul_def Decimal_sub_def context_round_one_minus_bid
    by (rule context_round_buy_price)
  have sell: "Decimal_mul 100 (Decimal_add 1 (1000000000000000047921736024 / 10 ^ 31))
               = 1000100000000000000004792174 / 10 ^ 25"
    unfolding Decimal_mul_def Decimal_add_def context_round_one_plus_ask
    by (rule context_round_sell_price)
  show ?thesis
    by (simp only: build_orders_def prod.case Let_def buy sell MyPMM_init_def MyPMM.simps
          Decimal_of_float_def float_of_001)
qed

lemma flat_frame:
  "raw_candles_df connector_flat = replicate 58 flat_candle @ [flat_candle, flat_candle]"
  "candles_length MyPMM_init = 30"
  "30 \<le> length (raw_candles_df connector_flat)"
proof -
  have "replicate 60 flat_candle = replicate 58 flat_candle @ replicate 2 flat_candle"
    by (simp only: replicate_add[symmetric]) simp
  also have "replicate 2 flat_candle = [flat_candle, flat_candle]"
    by (simp add: numeral_2_eq_2)
  finally show "raw_candles_df connector_flat = replicate 58 flat_candle @ [flat_candle, flat_candle]"
    by (simp add: connector_flat_def connector_no_candles_def)
  show "candles_length MyPMM_init = 30" by (simp add: MyPMM_init_def)
  show "30 \<le> length (raw_candles_df connector_flat)"
    by (simp add: connector_flat_def connector_no_candles_def)
qed

lemma ratio_init_flat: "get_inventory_ratio MyPMM_init connector_flat = Inr (1 / 2)"
  by (rule ratio_no_funds)
     (simp_all add: MyPMM_init_def connector_flat_def connector_no_candles_def)

lemma create_proposal_init_flat:
  "create_proposal MyPMM_init connector_flat =
     Inr [\<lparr> oc_trading_pair = ''ETH-USDT'', is_maker = True, order_type = LIMIT, order_side = BUY,
        amount = 5764607523034235 / 2 ^ 59,
        oc_price = 9998999999999999999952078264 / 10 ^ 26 \<rparr>,
      \<lparr> oc_trading_pair = ''ETH-USDT'', is_maker = True, order_type = LIMIT, order_side = SELL,
        amount = 5764607523034235 / 2 ^ 59,
        oc_price = 1000100000000000000004792174 / 10 ^ 25 \<rparr>]"
proof -
  have p: "get_price_by_type connector_flat (trading_pair MyPMM_init) (price_source MyPMM_init) = 100"
    by (simp add: connector_flat_def connector_no_candles_def)
  have d: "bearish_divergence (RSI_30 flat_candle) (RSI_30 flat_candle) (close flat_candle) (close flat_candle) = False"
    "bullish_divergence (RSI_30 flat_candle) (RSI_30 flat_candle) (close flat_candle) (close flat_candle) = False"
    by (simp_all add: bearish_divergence_def bullish_divergence_def)
  have n: "NATR_30 flat_candle = 0" by (simp add: flat_candle_def)
  show ?thesis
    unfolding create_proposal_eq[OF flat_frame(2,3,1) ratio_init_flat] p d n
      skew_spreads_no_divergence
      volatility_spreads_init_0 build_orders_init_flat ..
qed


text \<open>
  C4, in the form that holds of the code. On a tick whose current time is strictly before
  \<open>create_timestamp\<close> nothing is sent and the instance is unchanged. On a tick whose
  current time is at or after it and whose candle frame has at least 30 rows, the indicator
  length (the trading pair splitting into two asset names, the indicator values being
  numbers), exactly one cycle runs: every open order is cancelled, the proposal is built,
  passed through the budget checker and placed, and \<open>create_timestamp\<close> becomes the
  float sum of the refresh interval and the current time. On a tick whose current time is at or after it and whose frame has fewer
  than 30 rows, the open orders are cancelled, the cycle then leaves with the \<^verbatim>\<open>KeyError\<close>
  of the missing indicator column, nothing is placed and the timestamp stays.
\<close>

theorem refresh_gate:
  "(current_timestamp c < create_timestamp self \<longrightarrow> on_tick self c = (None, self, []))
   \<and> (create_timestamp self \<le> current_timestamp c
        \<and> candles_length self = 30 \<and> 30 \<le> length (raw_candles_df c)
        \<and> length (str_split CHR ''-'' (trading_pair self)) = 2 \<longrightarrow>
      (\<exists>proposal. create_proposal self c = Inr proposal
         \<and> on_tick self c =
            (None,
             self\<lparr>create_timestamp :=
               float_add (float_of (of_int (order_refresh_time self))) (current_timestamp c)\<rparr>,
             cancel_all_orders self c
               @ place_orders self (adjust_proposal_to_budget c proposal))))
   \<and> (create_timestamp self \<le> current_timestamp c
        \<and> length (raw_candles_df c) < 30
        \<and> length (str_split CHR ''-'' (trading_pair self)) = 2 \<longrightarrow>
      on_tick self c = (Some KeyError, self, cancel_all_orders self c))"
proof (intro conjI impI)
  assume "current_timestamp c < create_timestamp self"
  then show "on_tick self c = (None, self, [])" by (simp add: on_tick_def)
next
  assume a: "create_timestamp self \<le> current_timestamp c
        \<and> candles_length self = 30 \<and> 30 \<le> length (raw_candles_df c)
        \<and> length (str_split CHR ''-'' (trading_pair self)) = 2"
  then obtain proposal where p: "create_proposal self c = Inr proposal"
    using create_proposal_ok by blast
  with a show "\<exists>proposal. create_proposal self c = Inr proposal
         \<and> on_tick self c =
            (None,
             self\<lparr>create_timestamp :=
               float_add (float_of (of_int (order_refresh_time self))) (current_timestamp c)\<rparr>,
             cancel_all_orders self c
               @ place_orders self (adjust_proposal_to_budget c proposal))"
    by (simp add: on_tick_def Let_def)
next
  assume a: "create_timestamp self \<le> current_timestamp c
        \<and> length (raw_candles_df c) < 30
        \<and> length (str_split CHR ''-'' (trading_pair self)) = 2"
  then obtain r where r: "get_inventory_ratio self c = Inr r"
    using ratio_defined by blast
  have "\<not> (candles_length self = 30 \<and> 30 \<le> length (raw_candles_df c))"
    using a by simp
  then have "create_proposal self c = Inl KeyError"
    by (simp add: create_proposal_no_columns r)
  with a show "on_tick self c = (Some KeyError, self, cancel_all_orders self c)"
    by (simp add: on_tick_def Let_def)
qed

theorem refresh_gate_counterexample:
  "create_timestamp MyPMM_init \<le> current_timestamp connector_two_candles
   \<and> length (raw_candles_df connector_two_candles) = 2
   \<and> fst (on_tick MyPMM_init connector_two_candles) = Some KeyError
   \<and> create_timestamp (fst (snd (on_tick MyPMM_init connector_two_candles))) = 0
   \<and> float_add (float_of (of_int (order_refresh_time MyPMM_init)))
         (current_timestamp connector_two_candles) = 110"
proof -
  have r: "get_inventory_ratio MyPMM_init connector_two_candles = Inr (1 / 2)"
    by (rule ratio_no_funds)
       (simp_all add: MyPMM_init_def connector_two_candles_def connector_no_candles_def)
  have 1: "length (raw_candles_df connector_two_candles) = 2"
    by (simp add: connector_two_candles_def connector_no_candles_def)
  have 2: "create_timestamp MyPMM_init \<le> current_timestamp connector_two_candles"
    by (simp add: MyPMM_init_def connector_two_candles_def connector_no_candles_def)
  have "\<not> (candles_length MyPMM_init = 30 \<and> 30 \<le> length (raw_candles_df connector_two_candles))"
    by (simp add: 1)
  then have p: "create_proposal MyPMM_init connector_two_candles = Inl KeyError"
    by (simp add: create_proposal_no_columns r)
  have 3: "on_tick MyPMM_init connector_two_candles =
       (Some KeyError, MyPMM_init, cancel_all_orders MyPMM_init connector_two_candles)"
    using 2 by (simp add: on_tick_def Let_def p)
  have 4: "float_add (float_of (of_int (order_refresh_time MyPMM_init)))
         (current_timestamp connector_two_candles) = 110"
    by (simp add: MyPMM_init_def connector_two_candles_def connector_no_candles_def
          float_add_def float_of_10 float_of_110)
  have 5: "create_timestamp MyPMM_init = 0" by (simp add: MyPMM_init_def)
  from 1 2 3 4 5 show ?thesis by simp
qed

lemma place_orders_init_flat:
  "place_orders MyPMM_init
     [\<lparr> oc_trading_pair = ''ETH-USDT'', is_maker = True, order_type = LIMIT, order_side = BUY,
        amount = 5764607523034235 / 2 ^ 59,
        oc_price = 9998999999999999999952078264 / 10 ^ 26 \<rparr>,
      \<lparr> oc_trading_pair = ''ETH-USDT'', is_maker = True, order_type = LIMIT, order_side = SELL,
        amount = 5764607523034235 / 2 ^ 59,
        oc_price = 1000100000000000000004792174 / 10 ^ 25 \<rparr>] =
     [Buy ''binance_paper_trade'' ''ETH-USDT'' (5764607523034235 / 2 ^ 59) LIMIT
        (9998999999999999999952078264 / 10 ^ 26),
      Sell ''binance_paper_trade'' ''ETH-USDT'' (5764607523034235 / 2 ^ 59) LIMIT
        (1000100000000000000004792174 / 10 ^ 25)]"
  by (simp add: place_order_def MyPMM_init_def)

theorem refresh_gate_witness:
  "on_tick (MyPMM_init\<lparr>create_timestamp := 110\<rparr>) connector_flat
     = (None, MyPMM_init\<lparr>create_timestamp := 110\<rparr>, [])
   \<and> on_tick MyPMM_init connector_flat =
       (None, MyPMM_init\<lparr>create_timestamp := 110\<rparr>,
        [Cancel ''binance_paper_trade'' ''ETH-USDT'' ''order-1'',
         Buy ''binance_paper_trade'' ''ETH-USDT'' (5764607523034235 / 2 ^ 59) LIMIT
           (9998999999999999999952078264 / 10 ^ 26),
         Sell ''binance_paper_trade'' ''ETH-USDT'' (5764607523034235 / 2 ^ 59) LIMIT
           (1000100000000000000004792174 / 10 ^ 25)])
   \<and> on_tick MyPMM_init connector_two_candles =
       (Some KeyError, MyPMM_init, [Cancel ''binance_paper_trade'' ''ETH-USDT'' ''order-1''])"
proof -
  have t: "current_timestamp connector_flat = 100"
    by (simp add: connector_flat_def connector_no_candles_def)
  have 1: "current_timestamp connector_flat < create_timestamp (MyPMM_init\<lparr>create_timestamp := 110\<rparr>)"
    by (simp add: t)
  have sp: "length (str_split CHR ''-'' (trading_pair MyPMM_init)) = 2"
    by (simp add: MyPMM_init_def)
  have 2: "create_timestamp MyPMM_init \<le> current_timestamp connector_flat
        \<and> candles_length MyPMM_init = 30 \<and> 30 \<le> length (raw_candles_df connector_flat)
        \<and> length (str_split CHR ''-'' (trading_pair MyPMM_init)) = 2"
    using flat_frame(2,3) sp by (simp add: t) (simp add: MyPMM_init_def)
  have 3: "create_timestamp MyPMM_init \<le> current_timestamp connector_two_candles
        \<and> length (raw_candles_df connector_two_candles) < 30
        \<and> length (str_split CHR ''-'' (trading_pair MyPMM_init)) = 2"
    using sp by (simp add: MyPMM_init_def connector_two_candles_def connector_no_candles_def)
  have ts: "float_add (float_of (of_int (order_refresh_time MyPMM_init)))
         (current_timestamp connector_flat) = 110"
    by (simp add: t MyPMM_init_def float_add_def float_of_10 float_of_110)
  have cs: "cancel_all_orders MyPMM_init connector_flat
            = [Cancel ''binance_paper_trade'' ''ETH-USDT'' ''order-1'']"
    by (rule cancel_init) (simp add: connector_flat_def connector_no_candles_def)
  have cs2: "cancel_all_orders MyPMM_init connector_two_candles
            = [Cancel ''binance_paper_trade'' ''ETH-USDT'' ''order-1'']"
    by (rule cancel_init) (simp add: connector_two_candles_def connector_no_candles_def)
  have ad: "adjust_proposal_to_budget connector_flat p = p" for p
    by (simp add: adjust_proposal_to_budget_def connector_flat_def connector_no_candles_def)
  from refresh_gate[of connector_flat "MyPMM_init\<lparr>create_timestamp := 110\<rparr>"] 1
  have a: "on_tick (MyPMM_init\<lparr>create_timestamp := 110\<rparr>) connector_flat
     = (None, MyPMM_init\<lparr>create_timestamp := 110\<rparr>, [])"
    by blast
  from refresh_gate[of connector_flat MyPMM_init] 2
  have b: "on_tick MyPMM_init connector_flat =
       (None, MyPMM_init\<lparr>create_timestamp := 110\<rparr>,
        [Cancel ''binance_paper_trade'' ''ETH-USDT'' ''order-1'',
         Buy ''binance_paper_trade'' ''ETH-USDT'' (5764607523034235 / 2 ^ 59) LIMIT
           (9998999999999999999952078264 / 10 ^ 26),
         Sell ''binance_paper_trade'' ''ETH-USDT'' (5764607523034235 / 2 ^ 59) LIMIT
           (1000100000000000000004792174 / 10 ^ 25)])"
    unfolding ts cs ad create_proposal_init_flat
    by (auto simp only: sum.inject place_orders_init_flat append.simps)
  from refresh_gate[of connector_two_candles MyPMM_init] 3
  have c: "on_tick MyPMM_init connector_two_candles =
       (Some KeyError, MyPMM_init, [Cancel ''binance_paper_trade'' ''ETH-USDT'' ''order-1''])"
    unfolding cs2 by blast
  from a b c show ?thesis by blast
qed

lemma get_inventory_ratio_budget_indep:
  "get_inventory_ratio self (c\<lparr>adjust_candidates := f\<rparr>) = get_inventory_ratio self c"
  by (simp add: get_inventory_ratio_def split: list.splits)

lemma features_budget_indep:
  "get_candles_with_features self (c\<lparr>adjust_candidates := f\<rparr>) = get_candles_with_features self c"
  by (simp add: get_candles_with_features_def)

lemma create_proposal_budget_indep:
  "create_proposal self (c\<lparr>adjust_candidates := f\<rparr>) = create_proposal self c"
  by (simp add: create_proposal_def get_inventory_ratio_budget_indep features_budget_indep
        Let_def split: sum.splits)

text \<open>
  C9. When the budget checker returns the empty list for the proposal of a cycle, the cycle
  sends the cancellations and nothing else (no buy, no sell), leaves the trade history as it
  was, and still advances \<open>create_timestamp\<close>.
\<close>

theorem empty_budget_cycle:
  assumes "create_timestamp self \<le> current_timestamp c"
    and "create_proposal self c = Inr proposal"
    and "adjust_proposal_to_budget c proposal = []"
  shows "on_tick self c =
           (None,
            self\<lparr>create_timestamp :=
              float_add (float_of (of_int (order_refresh_time self))) (current_timestamp c)\<rparr>,
            cancel_all_orders self c)
         \<and> (\<forall>x \<in> set (snd (snd (on_tick self c))). \<exists>a b d. x = Cancel a b d)
         \<and> trade_history (fst (snd (on_tick self c))) = trade_history self"
  using assms
  by (auto simp: on_tick_def Let_def cancel_all_orders_def dest: cancel_orders_only_cancel)

theorem empty_budget_cycle_witness:
  "on_tick MyPMM_init connector_no_budget =
     (None, MyPMM_init\<lparr>create_timestamp := 110\<rparr>,
      [Cancel ''binance_paper_trade'' ''ETH-USDT'' ''order-1''])
   \<and> trade_history (fst (snd (on_tick MyPMM_init connector_no_budget))) = []"
proof -
  have t: "current_timestamp connector_no_budget = 100"
    by (simp add: connector_no_budget_def connector_flat_def connector_no_candles_def)
  have 1: "create_timestamp MyPMM_init \<le> current_timestamp connector_no_budget"
    by (simp add: t) (simp add: MyPMM_init_def)
  obtain proposal where 2: "create_proposal MyPMM_init connector_no_budget = Inr proposal"
    unfolding connector_no_budget_def create_proposal_budget_indep create_proposal_init_flat
    by blast
  have 3: "adjust_proposal_to_budget connector_no_budget proposal = []"
    by (simp add: adjust_proposal_to_budget_def connector_no_budget_def)
  have ts: "float_add (float_of (of_int (order_refresh_time MyPMM_init)))
         (current_timestamp connector_no_budget) = 110"
    by (simp add: t MyPMM_init_def float_add_def float_of_10 float_of_110)
  have cs: "cancel_all_orders MyPMM_init connector_no_budget
            = [Cancel ''binance_paper_trade'' ''ETH-USDT'' ''order-1'']"
    by (rule cancel_init)
       (simp add: connector_no_budget_def connector_flat_def connector_no_candles_def)
  have th: "trade_history MyPMM_init = []" by (simp add: MyPMM_init_def)
  from empty_budget_cycle[OF 1 2 3] show ?thesis
    unfolding ts cs th by blast
qed

text \<open>
  C6. For the last two samples, the bearish flag holds exactly when the momentum strictly
  decreases while the price strictly increases, the bullish flag exactly when the momentum
  strictly increases while the price strictly decreases; so both are false when neither
  condition holds, and they are never both true. (\<open>create_proposal_eq\<close> shows that
  \<^verbatim>\<open>create_proposal\<close> evaluates them on the last two rows of the frame.)
\<close>

theorem divergence_flags:
  "(bearish_divergence rsi rsi_prev price price_prev \<longleftrightarrow> rsi < rsi_prev \<and> price_prev < price)
   \<and> (bullish_divergence rsi rsi_prev price price_prev \<longleftrightarrow> rsi_prev < rsi \<and> price < price_prev)
   \<and> \<not> (bearish_divergence rsi rsi_prev price price_prev
          \<and> bullish_divergence rsi rsi_prev price price_prev)"
  by (auto simp: bearish_divergence_def bullish_divergence_def)

lemma float_07_less_08: "float_of (7 / 10) < float_of (4 / 5)"
  unfolding float_of_07 float_of_08 by simp

text \<open>
  C10. The skew changes at most one of the two spreads, for any ratio and any pair of
  flags, also a pair that is true on both sides: the result keeps the bid spread or keeps
  the ask spread. When the ask-side condition holds, the ask side is the one discounted and
  the bid spread is kept, whatever the bullish flag says.
\<close>

theorem skew_one_side:
  "(fst (skew_spreads inventory_ratio bearish bullish (bid, ask)) = bid
      \<or> snd (skew_spreads inventory_ratio bearish bullish (bid, ask)) = ask)
   \<and> (float_of (7 / 10) < inventory_ratio \<and> bearish \<longrightarrow>
        skew_spreads inventory_ratio bearish bullish (bid, ask) =
          (bid, Decimal_mul ask (Decimal_of_float (float_of (9 / 10)))))"
  by (simp add: skew_spreads_def)

theorem skew_one_side_witness:
  "float_of (7 / 10) < float_of (4 / 5)
   \<and> skew_spreads (float_of (4 / 5)) True True (1, 1) =
        (1, Decimal_mul 1 (Decimal_of_float (float_of (9 / 10))))"
  using skew_one_side[of "float_of (4 / 5)" True True 1 1] float_07_less_08 by blast




lemma volatility_spreads_0001:
  assumes "bid_spread self = float_of (1 / 10000)" "ask_spread self = float_of (1 / 10000)"
  shows "volatility_spreads self 0 =
     (1000000000000000047921736024 / 10 ^ 31, 1000000000000000047921736024 / 10 ^ 31)"
proof -
  have "Decimal_mul (Decimal_of_float (float_of (1 / 10000))) 1
          = 1000000000000000047921736024 / 10 ^ 31"
    unfolding Decimal_mul_def Decimal_of_float_def float_of_0001 mult_1_right
    by (rule context_round_bid)
  then show ?thesis
    by (simp only: volatility_spreads_def spread_multiplier_0 assms)
qed

lemma prices_at_100:
  "map oc_price (build_orders self 100
     (1000000000000000047921736024 / 10 ^ 31, 1000000000000000047921736024 / 10 ^ 31)) =
     [9998999999999999999952078264 / 10 ^ 26, 1000100000000000000004792174 / 10 ^ 25]"
proof -
  have buy: "Decimal_mul 100 (Decimal_sub 1 (1000000000000000047921736024 / 10 ^ 31))
               = 9998999999999999999952078264 / 10 ^ 26"
    unfolding Decimal_mul_def Decimal_sub_def context_round_one_minus_bid
    by (rule context_round_buy_price)
  have sell: "Decimal_mul 100 (Decimal_add 1 (1000000000000000047921736024 / 10 ^ 31))
               = 1000100000000000000004792174 / 10 ^ 25"
    unfolding Decimal_mul_def Decimal_add_def context_round_one_plus_ask
    by (rule context_round_sell_price)
  show ?thesis
    by (simp only: build_orders_def prod.case Let_def buy sell list.map OrderCandidate.simps)
qed

text \<open>
  C2, in the form that holds of the code. With reference price 100, both configured
  spreads the float \<^verbatim>\<open>0.0001\<close>, volatility 0, no divergence and hence no skew, the buy
  price is 99.98999999999999999952078264 and the sell price 100.0100000000000000004792174.
  They differ from 99.99 and 100.01 by less than \<open>1 / 10 ^ 18\<close> but equal neither: \<^verbatim>\<open>Decimal(0.0001)\<close>
  is the binary float, not the decimal 0.0001, and each Decimal operation rounds to 28
  significant digits.
\<close>

theorem prices_at_reference_100:
  assumes "get_price_by_type c (trading_pair self) (price_source self) = 100"
    and "bid_spread self = float_of (1 / 10000)"
    and "ask_spread self = float_of (1 / 10000)"
    and "raw_candles_df c = xs @ [prev, cur]"
    and "NATR_30 cur = 0"
    and "\<not> bearish_divergence (RSI_30 cur) (RSI_30 prev) (close cur) (close prev)"
    and "\<not> bullish_divergence (RSI_30 cur) (RSI_30 prev) (close cur) (close prev)"
    and "create_proposal self c = Inr proposal"
  shows "map oc_price proposal =
           [9998999999999999999952078264 / 10 ^ 26, 1000100000000000000004792174 / 10 ^ 25]
         \<and> \<bar>9998999999999999999952078264 / 10 ^ 26 - 9999 / 100 :: rat\<bar> < 1 / 10 ^ 18
         \<and> \<bar>1000100000000000000004792174 / 10 ^ 25 - 10001 / 100 :: rat\<bar> < 1 / 10 ^ 18"
proof -
  obtain r where r: "get_inventory_ratio self c = Inr r"
    using assms(8) by (cases "get_inventory_ratio self c") (simp_all add: create_proposal_def)
  have col: "candles_length self = 30" "30 \<le> length (raw_candles_df c)"
    using create_proposal_columns[OF assms(8)] by simp_all
  have "proposal = build_orders self 100
     (1000000000000000047921736024 / 10 ^ 31, 1000000000000000047921736024 / 10 ^ 31)"
    using assms(8)
    unfolding create_proposal_eq[OF col assms(4) r] assms(1) assms(5)
      volatility_spreads_0001[OF assms(2,3)]
    using assms(6,7) by (simp add: skew_spreads_no_divergence)
  then show ?thesis by (simp only: prices_at_100) simp
qed

theorem prices_at_reference_100_counterexample:
  "get_price_by_type connector_flat (trading_pair MyPMM_init) (price_source MyPMM_init) = 100
   \<and> bid_spread MyPMM_init = float_of (1 / 10000)
   \<and> ask_spread MyPMM_init = float_of (1 / 10000)
   \<and> create_proposal MyPMM_init connector_flat =
     Inr [\<lparr> oc_trading_pair = ''ETH-USDT'', is_maker = True, order_type = LIMIT, order_side = BUY,
        amount = 5764607523034235 / 2 ^ 59,
        oc_price = 9998999999999999999952078264 / 10 ^ 26 \<rparr>,
      \<lparr> oc_trading_pair = ''ETH-USDT'', is_maker = True, order_type = LIMIT, order_side = SELL,
        amount = 5764607523034235 / 2 ^ 59,
        oc_price = 1000100000000000000004792174 / 10 ^ 25 \<rparr>]
   \<and> (9998999999999999999952078264 / 10 ^ 26 :: rat) \<noteq> 9999 / 100
   \<and> (1000100000000000000004792174 / 10 ^ 25 :: rat) \<noteq> 10001 / 100"
proof -
  have p: "get_price_by_type connector_flat (trading_pair MyPMM_init) (price_source MyPMM_init) = 100"
    by (simp add: connector_flat_def connector_no_candles_def)
  have s: "bid_spread MyPMM_init = float_of (1 / 10000)" "ask_spread MyPMM_init = float_of (1 / 10000)"
    by (simp_all add: MyPMM_init_def)
  have n: "(9998999999999999999952078264 / 10 ^ 26 :: rat) \<noteq> 9999 / 100"
    "(1000100000000000000004792174 / 10 ^ 25 :: rat) \<noteq> 10001 / 100"
    by simp_all
  from p s n create_proposal_init_flat show ?thesis by blast
qed

theorem prices_at_reference_100_witness:
  "map oc_price
     [\<lparr> oc_trading_pair = ''ETH-USDT'', is_maker = True, order_type = LIMIT, order_side = BUY,
        amount = 5764607523034235 / 2 ^ 59,
        oc_price = 9998999999999999999952078264 / 10 ^ 26 \<rparr>,
      \<lparr> oc_trading_pair = ''ETH-USDT'', is_maker = True, order_type = LIMIT, order_side = SELL,
        amount = 5764607523034235 / 2 ^ 59,
        oc_price = 1000100000000000000004792174 / 10 ^ 25 \<rparr>] =
     [9998999999999999999952078264 / 10 ^ 26, 1000100000000000000004792174 / 10 ^ 25]
   \<and> \<bar>9998999999999999999952078264 / 10 ^ 26 - 9999 / 100 :: rat\<bar> < 1 / 10 ^ 18
   \<and> \<bar>1000100000000000000004792174 / 10 ^ 25 - 10001 / 100 :: rat\<bar> < 1 / 10 ^ 18"
proof -
  have p: "get_price_by_type connector_flat (trading_pair MyPMM_init) (price_source MyPMM_init) = 100"
    by (simp add: connector_flat_def connector_no_candles_def)
  have s: "bid_spread MyPMM_init = float_of (1 / 10000)" "ask_spread MyPMM_init = float_of (1 / 10000)"
    by (simp_all add: MyPMM_init_def)
  have c: "raw_candles_df connector_flat = replicate 58 flat_candle @ [flat_candle, flat_candle]"
    by (rule flat_frame)
  have n: "NATR_30 flat_candle = 0" by (simp add: flat_candle_def)
  have d: "\<not> bearish_divergence (RSI_30 flat_candle) (RSI_30 flat_candle) (close flat_candle) (close flat_candle)"
    "\<not> bullish_divergence (RSI_30 flat_candle) (RSI_30 flat_candle) (close flat_candle) (close flat_candle)"
    by (simp_all add: bearish_divergence_def bullish_divergence_def)
  show ?thesis
    by (rule prices_at_reference_100[OF p s c n d create_proposal_init_flat])
qed

lemma float_of_07_below: "float_of (7 / 10) < 7 / 10"
  unfolding float_of_07 by simp

text \<open>
  C3, in the form that holds of the code. Whenever the inventory ratio exceeds 0.7 and the
  bearish flag holds, the bid spread is unchanged and the ask spread is its un-skewed value
  times \<^verbatim>\<open>Decimal(0.9)\<close>, rounded to 28 significant digits. \<^verbatim>\<open>Decimal(0.9)\<close> is the float
  nearest to 0.9, that is \<open>8106479329266893 / 2 ^ 53\<close> = 0.9000000000000000222..., so the
  result is not exactly 90% of the un-skewed spread.
\<close>

theorem skew_ask_side:
  assumes "7 / 10 < inventory_ratio" and "bearish"
  shows "skew_spreads inventory_ratio bearish bullish (bid, ask) =
           (bid, context_round (ask * (8106479329266893 / 2 ^ 53)))"
proof -
  have "float_of (7 / 10) < inventory_ratio" using assms(1) float_of_07_below by linarith
  then show ?thesis using assms(2)
    by (simp add: skew_spreads_def Decimal_mul_def Decimal_of_float_def float_of_09)
qed

theorem skew_ask_side_counterexample:
  "7 / 10 < float_of (4 / 5)
   \<and> skew_spreads (float_of (4 / 5)) True False (volatility_spreads MyPMM_init 0) =
       (1000000000000000047921736024 / 10 ^ 31, 9000000000000000653340229141 / 10 ^ 32)
   \<and> snd (volatility_spreads MyPMM_init 0) = 1000000000000000047921736024 / 10 ^ 31
   \<and> (9000000000000000653340229141 / 10 ^ 32 :: rat)
        \<noteq> 9 / 10 * (1000000000000000047921736024 / 10 ^ 31)"
proof -
  have 1: "7 / 10 < float_of (4 / 5)" unfolding float_of_08 by simp
  then have 2: "float_of (7 / 10) < float_of (4 / 5)" using float_of_07_below by linarith
  have 3: "skew_spreads (float_of (4 / 5)) True False (volatility_spreads MyPMM_init 0) =
       (1000000000000000047921736024 / 10 ^ 31, 9000000000000000653340229141 / 10 ^ 32)"
    unfolding volatility_spreads_init_0 skew_spreads_def prod.case
    using 2 by (simp only: if_True simp_thms Decimal_mul_def Decimal_of_float_def float_of_09
                  context_round_skewed_ask)
  have 4: "(9000000000000000653340229141 / 10 ^ 32 :: rat)
        \<noteq> 9 / 10 * (1000000000000000047921736024 / 10 ^ 31)" by simp
  from 1 3 4 show ?thesis by (simp only: volatility_spreads_init_0 snd_conv simp_thms)
qed

theorem skew_ask_side_witness:
  "7 / 10 < float_of (4 / 5)
   \<and> skew_spreads (float_of (4 / 5)) True False
        (1000000000000000047921736024 / 10 ^ 31, 1000000000000000047921736024 / 10 ^ 31) =
       (1000000000000000047921736024 / 10 ^ 31,
        context_round (1000000000000000047921736024 / 10 ^ 31 * (8106479329266893 / 2 ^ 53)))"
proof -
  have 1: "7 / 10 < float_of (4 / 5)" unfolding float_of_08 by simp
  from 1 skew_ask_side[OF 1, of True False] show ?thesis by blast
qed


lemma spread_multiplier_100: "spread_multiplier 100 = 2"
  by (simp add: spread_multiplier_def float_add_def float_truediv_def Decimal_of_float_def
        float_of_1 float_of_2)

lemma spread_multiplier_mono: "v \<le> w \<Longrightarrow> spread_multiplier v \<le> spread_multiplier w"
  unfolding spread_multiplier_def float_add_def float_truediv_def Decimal_of_float_def
  by (intro float_of_mono add_left_mono divide_right_mono) simp_all

text \<open>
  C7, in the form that holds of the code. Each output spread is the base spread times the
  float \<open>1 + volatility / 100\<close>, rounded to 28 significant digits. For non-negative base
  spreads it never decreases when the volatility increases. Volatility 0 gives the base
  spread rounded to 28 significant digits and volatility 100 gives twice the base spread
  rounded to 28 significant digits; for the configured float \<^verbatim>\<open>0.0001\<close> this is not the base
  spread itself.
\<close>

theorem volatility_spreads_monotone:
  "volatility_spreads self v =
     (context_round (bid_spread self * float_of (1 + float_of (v / 100))),
      context_round (ask_spread self * float_of (1 + float_of (v / 100))))
   \<and> (0 \<le> bid_spread self \<and> 0 \<le> ask_spread self \<and> v \<le> w \<longrightarrow>
        fst (volatility_spreads self v) \<le> fst (volatility_spreads self w)
        \<and> snd (volatility_spreads self v) \<le> snd (volatility_spreads self w))
   \<and> volatility_spreads self 0 = (context_round (bid_spread self), context_round (ask_spread self))
   \<and> volatility_spreads self 100 =
        (context_round (bid_spread self * 2), context_round (ask_spread self * 2))"
proof (intro conjI impI)
  show "volatility_spreads self v =
     (context_round (bid_spread self * float_of (1 + float_of (v / 100))),
      context_round (ask_spread self * float_of (1 + float_of (v / 100))))"
    by (simp add: volatility_spreads_def spread_multiplier_def float_add_def float_truediv_def
          Decimal_of_float_def Decimal_mul_def)
next
  assume a: "0 \<le> bid_spread self \<and> 0 \<le> ask_spread self \<and> v \<le> w"
  then have m: "spread_multiplier v \<le> spread_multiplier w" by (simp add: spread_multiplier_mono)
  show "fst (volatility_spreads self v) \<le> fst (volatility_spreads self w)"
    using a m by (simp add: volatility_spreads_def Decimal_mul_def Decimal_of_float_def
          context_round_mono mult_left_mono)
  show "snd (volatility_spreads self v) \<le> snd (volatility_spreads self w)"
    using a m by (simp add: volatility_spreads_def Decimal_mul_def Decimal_of_float_def
          context_round_mono mult_left_mono)
next
  show "volatility_spreads self 0 = (context_round (bid_spread self), context_round (ask_spread self))"
    by (simp add: volatility_spreads_def spread_multiplier_0 Decimal_mul_def Decimal_of_float_def)
next
  show "volatility_spreads self 100 =
        (context_round (bid_spread self * 2), context_round (ask_spread self * 2))"
    by (simp add: volatility_spreads_def spread_multiplier_100 Decimal_mul_def Decimal_of_float_def)
qed

theorem volatility_spreads_monotone_counterexample:
  "fst (volatility_spreads MyPMM_init 0) = 1000000000000000047921736024 / 10 ^ 31
   \<and> Decimal_of_float (bid_spread MyPMM_init) = 7378697629483821 / 2 ^ 66
   \<and> (1000000000000000047921736024 / 10 ^ 31 :: rat) \<noteq> 7378697629483821 / 2 ^ 66"
proof -
  have 1: "Decimal_of_float (bid_spread MyPMM_init) = 7378697629483821 / 2 ^ 66"
    by (simp only: Decimal_of_float_def MyPMM_init_def MyPMM.simps float_of_0001)
  have 2: "(1000000000000000047921736024 / 10 ^ 31 :: rat) \<noteq> 7378697629483821 / 2 ^ 66"
    by simp
  from 1 2 show ?thesis by (simp only: volatility_spreads_init_0 fst_conv simp_thms)
qed

theorem volatility_spreads_monotone_witness:
  "0 \<le> bid_spread MyPMM_init \<and> 0 \<le> ask_spread MyPMM_init \<and> (0 :: rat) \<le> 100
   \<and> fst (volatility_spreads MyPMM_init 0) \<le> fst (volatility_spreads MyPMM_init 100)
   \<and> snd (volatility_spreads MyPMM_init 0) \<le> snd (volatility_spreads MyPMM_init 100)"
proof -
  have 1: "0 \<le> bid_spread MyPMM_init \<and> 0 \<le> ask_spread MyPMM_init \<and> (0 :: rat) \<le> 100"
    by (simp add: MyPMM_init_def float_of_0001)
  with volatility_spreads_monotone[of MyPMM_init 0 100] show ?thesis by blast
qed

lemma context_round_nonneg: "0 \<le> x \<Longrightarrow> 0 \<le> context_round x"
  using context_round_mono[of 0 x] by (simp add: context_round_0)

lemma float_of_unit_interval: "0 \<le> x \<Longrightarrow> x \<le> 1 \<Longrightarrow> 0 \<le> float_of x \<and> float_of x \<le> 1"
  using float_of_mono[of 0 x] float_of_mono[of x 1] by (simp add: float_of_0 float_of_1)

lemma context_round_unit_interval:
  "0 \<le> x \<Longrightarrow> x \<le> 1 \<Longrightarrow> 0 \<le> context_round x \<and> context_round x \<le> 1"
  using context_round_mono[of 0 x] context_round_mono[of x 1]
  by (simp add: context_round_0 context_round_1)

lemma ratio_unit_interval:
  assumes "0 \<le> base_balance" "0 \<le> quote_balance" "0 \<le> price"
    and "Decimal_add (Decimal_mul base_balance price) quote_balance \<noteq> 0"
  shows "0 \<le> float_of (Decimal_truediv (Decimal_mul base_balance price)
                           (Decimal_add (Decimal_mul base_balance price) quote_balance))
       \<and> float_of (Decimal_truediv (Decimal_mul base_balance price)
                           (Decimal_add (Decimal_mul base_balance price) quote_balance)) \<le> 1"
proof -
  define base_value where "base_value = Decimal_mul base_balance price"
  define total_value where "total_value = Decimal_add base_value quote_balance"
  have bv: "0 \<le> base_value" unfolding base_value_def Decimal_mul_def
    using assms(1,3) by (intro context_round_nonneg) simp
  have "base_value = context_round base_value"
    unfolding base_value_def Decimal_mul_def by (simp add: context_round_idem)
  also have "\<dots> \<le> total_value" unfolding total_value_def Decimal_add_def
    using assms(2) by (intro context_round_mono) simp
  finally have le: "base_value \<le> total_value" .
  have "total_value \<noteq> 0" using assms(4) by (simp add: total_value_def base_value_def)
  with bv le have pos: "0 < total_value" by linarith
  have "0 \<le> base_value / total_value" "base_value / total_value \<le> 1"
    using bv le pos by simp_all
  then have "0 \<le> Decimal_truediv base_value total_value \<and> Decimal_truediv base_value total_value \<le> 1"
    unfolding Decimal_truediv_def by (rule context_round_unit_interval)
  then have "0 \<le> float_of (Decimal_truediv base_value total_value)
       \<and> float_of (Decimal_truediv base_value total_value) \<le> 1"
    by (intro float_of_unit_interval) simp_all
  then show ?thesis by (simp add: total_value_def base_value_def)
qed

text \<open>
  C8. The inventory ratio is \<open>base_value / (base_value + quote_balance)\<close>, a Decimal
  quotient converted to a float; when the total value is zero it is exactly 0.5 and nothing
  is divided; for non-negative balances and price it lies between 0 and 1.
\<close>

theorem inventory_ratio_range:
  assumes "str_split CHR ''-'' (trading_pair self) = [base_asset, quote_asset]"
    and "base_value = Decimal_mul (get_balance c base_asset)
                        (get_price_by_type c (trading_pair self) MidPrice)"
    and "total_value = Decimal_add base_value (get_balance c quote_asset)"
  shows "\<exists>r. get_inventory_ratio self c = Inr r
           \<and> (total_value = 0 \<longrightarrow> r = 1 / 2)
           \<and> (total_value \<noteq> 0 \<longrightarrow> r = float_of (Decimal_truediv base_value total_value))
           \<and> (0 \<le> get_balance c base_asset \<and> 0 \<le> get_balance c quote_asset
                \<and> 0 \<le> get_price_by_type c (trading_pair self) MidPrice
                \<longrightarrow> 0 \<le> r \<and> r \<le> 1)"
proof (cases "total_value = 0")
  case True
  then have "get_inventory_ratio self c = Inr (1 / 2)"
    using assms by (simp add: get_inventory_ratio_pair float_of_half)
  with True show ?thesis by (intro exI[of _ "1 / 2"]) simp
next
  case False
  then have r: "get_inventory_ratio self c = Inr (float_of (Decimal_truediv base_value total_value))"
    using assms by (simp add: get_inventory_ratio_pair)
  have "0 \<le> float_of (Decimal_truediv base_value total_value)
        \<and> float_of (Decimal_truediv base_value total_value) \<le> 1"
    if "0 \<le> get_balance c base_asset \<and> 0 \<le> get_balance c quote_asset
                \<and> 0 \<le> get_price_by_type c (trading_pair self) MidPrice"
    using that False ratio_unit_interval[of "get_balance c base_asset" "get_balance c quote_asset"
        "get_price_by_type c (trading_pair self) MidPrice"]
    unfolding assms(2,3) by blast
  with r False show ?thesis
    by (intro exI[of _ "float_of (Decimal_truediv base_value total_value)"]) simp
qed

lemma context_round_three_quarters: "context_round (3 / 4) = 3 / 4"
  unfolding context_round_def using round_to_grid[of 10 "- 1000026" "- 2" 75 28] by simp

lemma float_of_three_quarters: "float_of (3 / 4) = 3 / 4"
  unfolding float_of_def using round_to_grid[of 2 "- 1074" "- 2" 3 53] by simp

theorem inventory_ratio_range_witness:
  "str_split CHR ''-'' (trading_pair MyPMM_init) = [''ETH'', ''USDT'']
   \<and> get_inventory_ratio MyPMM_init connector_funded = Inr (3 / 4)
   \<and> (0 :: rat) \<le> 3 / 4 \<and> (3 / 4 :: rat) \<le> 1"
proof -
  have 1: "str_split CHR ''-'' (trading_pair MyPMM_init) = [''ETH'', ''USDT'']"
    by (simp add: MyPMM_init_def)
  have b: "get_balance connector_funded ''ETH'' = 3" "get_balance connector_funded ''USDT'' = 100"
    "get_price_by_type connector_funded (trading_pair MyPMM_init) MidPrice = 100"
    by (simp_all add: connector_funded_def connector_flat_def connector_no_candles_def)
  have 2: "300 = Decimal_mul (get_balance connector_funded ''ETH'')
                   (get_price_by_type connector_funded (trading_pair MyPMM_init) MidPrice)"
    unfolding b Decimal_mul_def using context_round_int_exact[of 300] by simp
  have 3: "400 = Decimal_add 300 (get_balance connector_funded ''USDT'')"
    unfolding b Decimal_add_def using context_round_int_exact[of 400] by simp
  have 4: "float_of (Decimal_truediv 300 400) = 3 / 4"
    by (simp add: Decimal_truediv_def context_round_three_quarters float_of_three_quarters)
  from inventory_ratio_range[OF 1 2 3] 4
  have "get_inventory_ratio MyPMM_init connector_funded = Inr (3 / 4)" by auto
  with 1 show ?thesis by simp
qed

end
